theory Spec2Isabelle
  imports Complex_Main "HOL-Library.AList"
begin

section \<open>JavaScript data\<close>

text \<open>
  A JavaScript string is a sequence of UTF-16 code units. String literals of the source are
  written with \<open>str\<close> when they are ASCII and as lists of code units otherwise.
\<close>

type_synonym ustring = "nat list"

definition str :: "string \<Rightarrow> ustring" where
  "str s = map of_char s"

text \<open>
  The values the node reads are the JSON data of n8n items: \<open>null\<close>, booleans, finite
  numbers, strings, arrays and objects (an object is the list of its properties in property
  order); \<open>undefined\<close> is what reading an absent property gives. The type of numbers is a
  parameter: input data carries finite numbers (\<open>real\<close>), the values the node computes may
  be \<open>NaN\<close> (\<open>None\<close> of \<open>real option\<close>). Arithmetic on the values computed is exact,
  except in the cosine helper, where the range of IEEE doubles decides between a number and
  \<open>NaN\<close> and is modelled (section Scoring); the rounding of the mantissa is not modelled.
\<close>

datatype 'n jsval =
    JUndefined
  | JNull
  | JBool bool
  | JNum 'n
  | JStr ustring
  | JArr "'n jsval list"
  | JObj "(ustring \<times> 'n jsval) list"

type_synonym json = "real jsval"
type_synonym num = "real option"
type_synonym outval = "num jsval"

definition lift :: "json \<Rightarrow> outval" where
  "lift = map_jsval Some"

text \<open>Truthiness (\<open>ToBoolean\<close>) of an input value, as used by \<open>||\<close>, \<open>?:\<close> and \<open>if\<close>.\<close>

fun truthy :: "json \<Rightarrow> bool" where
  "truthy JUndefined = False"
| "truthy JNull = False"
| "truthy (JBool b) = b"
| "truthy (JNum r) = (r \<noteq> 0)"
| "truthy (JStr s) = (s \<noteq> [])"
| "truthy (JArr xs) = True"
| "truthy (JObj kvs) = True"

fun nullish :: "'n jsval \<Rightarrow> bool" where
  "nullish JUndefined = True"
| "nullish JNull = True"
| "nullish _ = False"

text \<open>The decimal rendering of an array index, as a property name.\<close>

fun decimal :: "nat \<Rightarrow> ustring" where
  "decimal n = (if n < 10 then [48 + n] else decimal (n div 10) @ [48 + n mod 10])"

declare decimal.simps [simp del]

text \<open>
  \<open>v.k\<close> for a value \<open>v\<close> that is neither \<open>null\<close> nor \<open>undefined\<close>, for the property
  names the node reads (\<open>json\<close>, \<open>query\<close>, \<open>query_embedding\<close>, \<open>items\<close>, \<open>chunk\<close>,
  \<open>embedding\<close>, \<open>score\<close>, \<open>timestamp\<close>, \<open>rerank_score\<close>, \<open>length\<close>): an own property of
  an object, the length of a string or array, and \<open>undefined\<close> otherwise. \<open>own_prop\<close> is the
  same on the objects the node builds itself.
\<close>

fun own_prop :: "'n jsval \<Rightarrow> ustring \<Rightarrow> 'n jsval" where
  "own_prop (JObj kvs) k = (case map_of kvs k of Some v \<Rightarrow> v | None \<Rightarrow> JUndefined)"
| "own_prop _ k = JUndefined"

fun jsprop :: "json \<Rightarrow> ustring \<Rightarrow> json" where
  "jsprop (JArr xs) k = (if k = str ''length'' then JNum (real (length xs)) else JUndefined)"
| "jsprop (JStr s) k = (if k = str ''length'' then JNum (real (length s)) else JUndefined)"
| "jsprop v k = own_prop v k"

text \<open>Optional chaining \<open>v?.k\<close>.\<close>

definition opt_prop :: "json \<Rightarrow> ustring \<Rightarrow> json" where
  "opt_prop v k = (if nullish v then JUndefined else jsprop v k)"

text \<open>
  \<open>v[i]\<close> for an index \<open>i\<close>: an element of an array, a one-unit string of a string, the
  property named by the decimal index of an object.
\<close>

fun js_index :: "json \<Rightarrow> nat \<Rightarrow> json" where
  "js_index (JArr xs) i = (if i < length xs then xs ! i else JUndefined)"
| "js_index (JStr s) i = (if i < length s then JStr [s ! i] else JUndefined)"
| "js_index (JObj kvs) i = jsprop (JObj kvs) (decimal i)"
| "js_index _ i = JUndefined"

text \<open>
  The own enumerable properties that an object spread \<open>{...v}\<close> copies: those of an object,
  the indexed elements of an array or string, none for any other value.
\<close>

fun spread :: "'n jsval \<Rightarrow> (ustring \<times> 'n jsval) list" where
  "spread (JObj kvs) = kvs"
| "spread (JArr xs) = map (\<lambda>(i, x). (decimal i, x)) (enumerate 0 xs)"
| "spread (JStr s) = map (\<lambda>(i, c). (decimal i, JStr [c])) (enumerate 0 s)"
| "spread _ = []"

text \<open>
  \<open>slice(start, end)\<close> of an array: both bounds are truncated towards zero
  (\<open>ToIntegerOrInfinity\<close>), a negative bound counts from the end.
\<close>

definition trunc :: "real \<Rightarrow> int" where
  "trunc x = (if 0 \<le> x then \<lfloor>x\<rfloor> else \<lceil>x\<rceil>)"

definition rel_index :: "int \<Rightarrow> real \<Rightarrow> int" where
  "rel_index len x = (let r = trunc x in if r < 0 then max (len + r) 0 else min r len)"

definition js_slice :: "'a list \<Rightarrow> real \<Rightarrow> real \<Rightarrow> 'a list" where
  "js_slice xs start fin =
     (let len = int (length xs); k = rel_index len start; final = rel_index len fin
      in take (nat (final - k)) (drop (nat k) xs))"

section \<open>Errors and the services of the JavaScript engine\<close>

text \<open>
  \<open>Error m\<close> is \<open>throw new Error(m)\<close> of the source. \<open>TypeError w\<close> is the exception the
  engine raises when \<open>w\<close> is read from \<open>null\<close> or \<open>undefined\<close>, or when the method \<open>w\<close> is
  called on a value that has none; its message text is the engine's.
\<close>

datatype error = Error ustring | TypeError ustring

text \<open>
  The built-ins of the engine whose tables are not part of the repository are parameters:
  Unicode case mapping, normalisation and the character classes \<open>\p{L}\<close>, \<open>\p{N}\<close> (on code
  points), the conversion of strings and of arrays and objects to numbers (the latter runs
  \<open>ToPrimitive\<close> and may throw), date parsing, the clock, and the text of a \<open>TypeError\<close>.
\<close>

record runtime =
  toLowerCase :: "ustring \<Rightarrow> ustring"
  normalizeNFC :: "ustring \<Rightarrow> ustring"
  isLetterOrNumber :: "nat \<Rightarrow> bool"
  stringToNumber :: "ustring \<Rightarrow> num"
  objectToNumber :: "json \<Rightarrow> error + num"
  dateParse :: "ustring \<Rightarrow> num"
  objectToDate :: "json \<Rightarrow> error + num"
  now :: real
  typeErrorMessage :: "ustring \<Rightarrow> ustring"

text \<open>\<open>ToNumber\<close> of an input value, as applied by \<open>*\<close> and \<open>**\<close>.\<close>

fun to_number :: "runtime \<Rightarrow> json \<Rightarrow> error + num" where
  "to_number rt JUndefined = Inr None"
| "to_number rt JNull = Inr (Some 0)"
| "to_number rt (JBool b) = Inr (Some (if b then 1 else 0))"
| "to_number rt (JNum r) = Inr (Some r)"
| "to_number rt (JStr s) = Inr (stringToNumber rt s)"
| "to_number rt v = objectToNumber rt v"

text \<open>
  \<open>new Date(ts).getTime()\<close>: a number is clipped to the range of time values and truncated,
  a string is parsed, an array or object is converted first.
\<close>

definition time_clip :: "real \<Rightarrow> num" where
  "time_clip r = (if \<bar>r\<bar> > 8640000000000000 then None else Some (of_int (trunc r)))"

fun date_time :: "runtime \<Rightarrow> json \<Rightarrow> error + num" where
  "date_time rt JUndefined = Inr None"
| "date_time rt JNull = Inr (Some 0)"
| "date_time rt (JBool b) = Inr (Some (if b then 1 else 0))"
| "date_time rt (JNum r) = Inr (time_clip r)"
| "date_time rt (JStr s) = Inr (dateParse rt s)"
| "date_time rt v = objectToDate rt v"

text \<open>Arithmetic on computed numbers: \<open>NaN\<close> in, \<open>NaN\<close> out.\<close>

definition num2 :: "(real \<Rightarrow> real \<Rightarrow> real) \<Rightarrow> num \<Rightarrow> num \<Rightarrow> num" where
  "num2 f a b = (case a of None \<Rightarrow> None | Some x \<Rightarrow> map_option (f x) b)"

text \<open>\<open>xs.map(f)\<close> where \<open>f\<close> may throw: the first exception ends the traversal.\<close>

fun traverse :: "('a \<Rightarrow> error + 'b) \<Rightarrow> 'a list \<Rightarrow> error + 'b list" where
  "traverse f [] = Inr []"
| "traverse f (x # xs) =
     (case f x of
        Inl e \<Rightarrow> Inl e
      | Inr y \<Rightarrow> (case traverse f xs of Inl e \<Rightarrow> Inl e | Inr ys \<Rightarrow> Inr (y # ys)))"

section \<open>Configuration\<close>

text \<open>
  The node parameters, each with the type its declaration in \<open>description.properties\<close>
  gives it (\<open>number\<close>, \<open>boolean\<close>, \<open>string\<close>, \<open>options\<close>); \<open>getNodeParameter\<close> reads
  them.
\<close>

record config =
  topN :: real
  batchSize :: real
  semWeight :: real
  lexWeight :: real
  exactWeight :: real
  timeWeight :: real
  useExternalScore :: bool
  recencyHalfLife :: real
  minTokenLength :: real
  normalizeMethod :: ustring
  customStopwords :: ustring
  useModel :: bool
  modelWeights :: ustring
  debug :: bool

text \<open>\<open>Number(x) || d\<close> for a numeric parameter \<open>x\<close>: zero is falsy.\<close>

definition number_or :: "real \<Rightarrow> real \<Rightarrow> real" where
  "number_or x d = (if x = 0 then d else x)"

definition eff_topN :: "config \<Rightarrow> real" where
  "eff_topN cfg = number_or (topN cfg) 5"

definition eff_batchSize :: "config \<Rightarrow> real" where
  "eff_batchSize cfg = number_or (batchSize cfg) 200"

definition eff_recencyHalfLife :: "config \<Rightarrow> real" where
  "eff_recencyHalfLife cfg = number_or (recencyHalfLife cfg) 60"

definition eff_minTokenLength :: "config \<Rightarrow> real" where
  "eff_minTokenLength cfg = number_or (minTokenLength cfg) 2"

definition eff_normalizeMethod :: "config \<Rightarrow> ustring" where
  "eff_normalizeMethod cfg =
     (if normalizeMethod cfg = [] then str ''sigmoid'' else normalizeMethod cfg)"

record weights =
  w_sem :: real
  w_lex :: real
  w_exact :: real
  w_time :: real

definition W :: "config \<Rightarrow> weights" where
  "W cfg = \<lparr> w_sem = number_or (semWeight cfg) 0.7,
             w_lex = number_or (lexWeight cfg) 0.25,
             w_exact = number_or (exactWeight cfg) 0.10,
             w_time = number_or (timeWeight cfg) 0.05 \<rparr>"

definition sumW :: "config \<Rightarrow> real" where
  "sumW cfg = w_sem (W cfg) + w_lex (W cfg) + w_exact (W cfg) + w_time (W cfg)"

section \<open>Tokenizer\<close>

text \<open>The characters matched by \<open>\s\<close> and removed by \<open>trim()\<close>.\<close>

definition is_ws :: "nat \<Rightarrow> bool" where
  "is_ws c \<longleftrightarrow>
     c \<in> set [9, 10, 11, 12, 13, 32, 160, 5760, 8232, 8233, 8239, 8287, 12288, 65279]
     \<or> (8192 \<le> c \<and> c \<le> 8202)"

definition trim :: "ustring \<Rightarrow> ustring" where
  "trim s = rev (dropWhile is_ws (rev (dropWhile is_ws s)))"

text \<open>\<open>s.split(",")\<close> and the like: the pieces between the occurrences of one separator.\<close>

fun split_on :: "nat \<Rightarrow> ustring \<Rightarrow> ustring list" where
  "split_on sep [] = [[]]"
| "split_on sep (c # cs) =
     (if c = sep then [] # split_on sep cs
      else (case split_on sep cs of w # ws \<Rightarrow> (c # w) # ws | [] \<Rightarrow> [[c]]))"

text \<open>\<open>s.split(/\s+/)\<close>: the pieces between the maximal runs of whitespace.\<close>

function split_ws :: "ustring \<Rightarrow> ustring list" where
  "split_ws [] = [[]]"
| "split_ws (c # cs) =
     (if is_ws c then [] # split_ws (dropWhile is_ws cs)
      else (case split_ws cs of w # ws \<Rightarrow> (c # w) # ws | [] \<Rightarrow> [[c]]))"
  by pat_completeness auto
termination
  by (relation "measure length") (auto simp: length_dropWhile_le less_Suc_eq_le)

text \<open>
  The code points of a string as a regular expression with the \<open>u\<close> flag reads them: a high
  surrogate followed by a low surrogate is one code point. Each comes with its code units.
\<close>

fun code_points :: "ustring \<Rightarrow> (nat \<times> ustring) list" where
  "code_points (h # l # r) =
     (if 55296 \<le> h \<and> h \<le> 56319 \<and> 56320 \<le> l \<and> l \<le> 57343
      then (65536 + (h - 55296) * 1024 + (l - 56320), [h, l]) # code_points r
      else (h, [h]) # code_points (l # r))"
| "code_points [c] = [(c, [c])]"
| "code_points [] = []"

text \<open>
  \<open>.replace(/[^\p{L}\p{N}]+/gu, " ")\<close>: every maximal run of code points that are neither
  letters nor numbers becomes one space. The flag says whether the previous code point
  belonged to such a run.
\<close>

fun replace_runs :: "(nat \<Rightarrow> bool) \<Rightarrow> bool \<Rightarrow> (nat \<times> ustring) list \<Rightarrow> ustring" where
  "replace_runs keep in_run [] = []"
| "replace_runs keep in_run ((cp, units) # r) =
     (if keep cp then units @ replace_runs keep False r
      else (if in_run then [] else [32]) @ replace_runs keep True r)"

text \<open>\<open>tok\<close> on a string (lines 126 to 132).\<close>

definition tok_str :: "runtime \<Rightarrow> real \<Rightarrow> ustring list \<Rightarrow> ustring \<Rightarrow> ustring list" where
  "tok_str rt minLen STOP s =
     filter (\<lambda>w. minLen \<le> real (length w) \<and> w \<notin> set STOP)
       (split_ws (replace_runs (isLetterOrNumber rt) False
          (code_points (normalizeNFC rt (toLowerCase rt s)))))"

text \<open>
  \<open>tok(t)\<close> on any value: \<open>t || ""\<close> replaces a falsy value by the empty string, and a truthy
  value that is not a string has no method \<open>toLowerCase\<close>.
\<close>

definition tok :: "runtime \<Rightarrow> real \<Rightarrow> ustring list \<Rightarrow> json \<Rightarrow> error + ustring list" where
  "tok rt minLen STOP t =
     (if truthy t
      then (case t of JStr s \<Rightarrow> Inr (tok_str rt minLen STOP s)
                    | _ \<Rightarrow> Inl (TypeError (str ''toLowerCase'')))
      else Inr (tok_str rt minLen STOP []))"

definition BASE_STOP :: "ustring list" where
  "BASE_STOP =
     [str ''the'', str ''is'', str ''at'', str ''on'', str ''a'', str ''an'', str ''and'',
      str ''or'',
      [1080], [1085, 1072], [1087, 1086], [1076, 1083, 1103], [1082, 1072, 1082],
      [1101, 1090, 1086], [1085, 1077], [1080, 1079], [1090, 1072], [1097, 1086],
      [1072, 1083, 1077], [1074, 1110, 1076]]"

text \<open>The custom stopwords (lines 108 and 109) and the stopword set (line 124).\<close>

definition customStop :: "runtime \<Rightarrow> config \<Rightarrow> ustring list" where
  "customStop rt cfg =
     filter (\<lambda>s. s \<noteq> [])
       (map (\<lambda>s. toLowerCase rt (trim s)) (split_on 44 (customStopwords cfg)))"

definition STOP :: "runtime \<Rightarrow> config \<Rightarrow> ustring list" where
  "STOP rt cfg = BASE_STOP @ customStop rt cfg"

section \<open>Plain objects used as counters\<close>

text \<open>
  \<open>globalDF\<close> and \<open>tfMap\<close> are object literals \<open>{}\<close> indexed by tokens. Reading a key that
  the object does not own falls through to \<open>Object.prototype\<close>, so for the names below the
  read gives a function (or, for \<open>__proto__\<close>, the prototype object): a truthy value that
  is not a number, to which \<open>+ 1\<close> appends the character \<open>1\<close>. \<open>Junk\<close> stands for such a
  value; in arithmetic it is \<open>NaN\<close>.
\<close>

datatype cell = Count nat | Junk

type_synonym counter = "ustring \<rightharpoonup> cell"

definition Object_prototype_names :: "ustring list" where
  "Object_prototype_names =
     [str ''constructor'', str ''__defineGetter__'', str ''__defineSetter__'',
      str ''hasOwnProperty'', str ''__lookupGetter__'', str ''__lookupSetter__'',
      str ''isPrototypeOf'', str ''propertyIsEnumerable'', str ''toString'',
      str ''valueOf'', str ''__proto__'', str ''toLocaleString'']"

text \<open>\<open>m[t]\<close>; \<open>None\<close> is \<open>undefined\<close>.\<close>

definition read_cell :: "counter \<Rightarrow> ustring \<Rightarrow> cell option" where
  "read_cell m t =
     (case m t of
        Some c \<Rightarrow> Some c
      | None \<Rightarrow> if t \<in> set Object_prototype_names then Some Junk else None)"

text \<open>\<open>m[t] = (m[t] || 0) + 1\<close>.\<close>

definition bump :: "counter \<Rightarrow> ustring \<Rightarrow> counter" where
  "bump m t =
     m(t \<mapsto> (case read_cell m t of
                None \<Rightarrow> Count 1
              | Some (Count n) \<Rightarrow> Count (n + 1)
              | Some Junk \<Rightarrow> Junk))"

section \<open>Scoring\<close>

text \<open>
  The tokens of a candidate document, \<open>tok(it.json?.chunk || "")\<close>. Reading \<open>json\<close> from a
  document that is \<open>null\<close> or \<open>undefined\<close> throws.
\<close>

definition doc_tokens :: "runtime \<Rightarrow> config \<Rightarrow> json \<Rightarrow> error + ustring list" where
  "doc_tokens rt cfg it =
     (if nullish it then Inl (TypeError (str ''json''))
      else (let c = opt_prop (jsprop it (str ''json'')) (str ''chunk'')
            in tok rt (eff_minTokenLength cfg) (STOP rt cfg) (if truthy c then c else JStr [])))"

text \<open>The global document frequencies (lines 150 to 155).\<close>

fun globalDF :: "runtime \<Rightarrow> config \<Rightarrow> ustring list \<Rightarrow> counter \<Rightarrow> json list \<Rightarrow> error + counter" where
  "globalDF rt cfg qTok df [] = Inr df"
| "globalDF rt cfg qTok df (it # docs) =
     (case doc_tokens rt cfg it of
        Inl e \<Rightarrow> Inl e
      | Inr dTok \<Rightarrow>
          globalDF rt cfg qTok
            (foldl (\<lambda>m t. if t \<in> set dTok then bump m t else m) df qTok) docs)"

text \<open>
  The cosine helper (lines 112 to 118) squares and multiplies the components of the two
  embeddings, so its intermediate values can leave the range of doubles, and then the value
  it returns changes in kind: \<open>Infinity / Infinity\<close> is \<open>NaN\<close>, a finite number over
  \<open>Infinity\<close> is \<open>0\<close>, a denominator that underflows to \<open>0\<close> is falsy. The helper is
  therefore computed on doubles with their range: a result whose magnitude reaches
  \<open>2^1024 - 2^970\<close> is an infinity, one whose magnitude is at most \<open>2^-1075\<close> is zero.
\<close>

datatype dbl = DFin real | DPosInf | DNegInf | DNaN

definition dbl_range :: "real \<Rightarrow> dbl" where
  "dbl_range x =
     (if 2 ^ 1024 - 2 ^ 970 \<le> x then DPosInf
      else if x \<le> - (2 ^ 1024 - 2 ^ 970) then DNegInf
      else if \<bar>x\<bar> \<le> 1 / 2 ^ 1075 then DFin 0
      else DFin x)"

fun to_dbl :: "num \<Rightarrow> dbl" where
  "to_dbl None = DNaN"
| "to_dbl (Some r) = DFin r"

fun dbl_neg :: "dbl \<Rightarrow> dbl" where
  "dbl_neg (DFin x) = DFin (- x)"
| "dbl_neg DPosInf = DNegInf"
| "dbl_neg DNegInf = DPosInf"
| "dbl_neg DNaN = DNaN"

text \<open>An infinity times, or over, a finite number.\<close>

definition dbl_signed :: "dbl \<Rightarrow> real \<Rightarrow> dbl" where
  "dbl_signed d x = (if x = 0 then DNaN else if 0 < x then d else dbl_neg d)"

fun dbl_mul :: "dbl \<Rightarrow> dbl \<Rightarrow> dbl" where
  "dbl_mul (DFin x) (DFin y) = dbl_range (x * y)"
| "dbl_mul (DFin x) DPosInf = dbl_signed DPosInf x"
| "dbl_mul (DFin x) DNegInf = dbl_signed DNegInf x"
| "dbl_mul DPosInf (DFin y) = dbl_signed DPosInf y"
| "dbl_mul DNegInf (DFin y) = dbl_signed DNegInf y"
| "dbl_mul DPosInf DPosInf = DPosInf"
| "dbl_mul DPosInf DNegInf = DNegInf"
| "dbl_mul DNegInf DPosInf = DNegInf"
| "dbl_mul DNegInf DNegInf = DPosInf"
| "dbl_mul _ _ = DNaN"

fun dbl_add :: "dbl \<Rightarrow> dbl \<Rightarrow> dbl" where
  "dbl_add (DFin x) (DFin y) = dbl_range (x + y)"
| "dbl_add (DFin x) DPosInf = DPosInf"
| "dbl_add (DFin x) DNegInf = DNegInf"
| "dbl_add DPosInf (DFin y) = DPosInf"
| "dbl_add DNegInf (DFin y) = DNegInf"
| "dbl_add DPosInf DPosInf = DPosInf"
| "dbl_add DNegInf DNegInf = DNegInf"
| "dbl_add _ _ = DNaN"

fun dbl_sqrt :: "dbl \<Rightarrow> dbl" where
  "dbl_sqrt (DFin x) = (if x < 0 then DNaN else DFin (sqrt x))"
| "dbl_sqrt DPosInf = DPosInf"
| "dbl_sqrt _ = DNaN"

text \<open>\<open>x / y\<close> for a \<open>y\<close> that is truthy: not zero and not \<open>NaN\<close>.\<close>

fun dbl_div :: "dbl \<Rightarrow> dbl \<Rightarrow> dbl" where
  "dbl_div (DFin x) (DFin y) = dbl_range (x / y)"
| "dbl_div (DFin x) DPosInf = DFin 0"
| "dbl_div (DFin x) DNegInf = DFin 0"
| "dbl_div DPosInf (DFin y) = dbl_signed DPosInf y"
| "dbl_div DNegInf (DFin y) = dbl_signed DNegInf y"
| "dbl_div _ _ = DNaN"

fun dbl_truthy :: "dbl \<Rightarrow> bool" where
  "dbl_truthy (DFin x) = (x \<noteq> 0)"
| "dbl_truthy DNaN = False"
| "dbl_truthy _ = True"

text \<open>
  The value handed on to the scores. The quotient of the helper is infinite only if the dot
  product is infinite, or exceeds the denominator \<open>2^1024\<close> times, while the denominator,
  the product of the two norms, is finite and not zero. By the Cauchy-Schwarz inequality the
  dot product exceeds the product of the norms by no more than the squares that underflowed,
  so this does not arise; the type of the scores has no infinity.
\<close>

fun dbl_num :: "dbl \<Rightarrow> num" where
  "dbl_num (DFin x) = Some x"
| "dbl_num _ = None"

text \<open>The loop of line 115; \<open>a\<close> is the query embedding, an array.\<close>

fun cos_loop :: "runtime \<Rightarrow> json \<Rightarrow> nat \<Rightarrow> json list \<Rightarrow> dbl \<times> dbl \<times> dbl \<Rightarrow> error + dbl \<times> dbl \<times> dbl" where
  "cos_loop rt b i [] acc = Inr acc"
| "cos_loop rt b i (ai # a) (dot, na, nb) =
     (case to_number rt ai of
        Inl e \<Rightarrow> Inl e
      | Inr x \<Rightarrow>
          (case to_number rt (js_index b i) of
             Inl e \<Rightarrow> Inl e
           | Inr y \<Rightarrow>
               cos_loop rt b (Suc i) a
                 (dbl_add dot (dbl_mul (to_dbl x) (to_dbl y)),
                  dbl_add na (dbl_mul (to_dbl x) (to_dbl x)),
                  dbl_add nb (dbl_mul (to_dbl y) (to_dbl y)))))"

definition cos :: "runtime \<Rightarrow> json list \<Rightarrow> json \<Rightarrow> error + num" where
  "cos rt a b =
     (if a = [] \<or> \<not> truthy (opt_prop b (str ''length''))
         \<or> jsprop b (str ''length'') \<noteq> JNum (real (length a))
      then Inr (Some 0)
      else (case cos_loop rt b 0 a (DFin 0, DFin 0, DFin 0) of
              Inl e \<Rightarrow> Inl e
            | Inr (dot, na, nb) \<Rightarrow>
                (let denom = dbl_mul (dbl_sqrt na) (dbl_sqrt nb)
                 in Inr (if dbl_truthy denom then dbl_num (dbl_div dot denom) else Some 0))))"

text \<open>The semantic signal (lines 171 to 173) of a document with data object \<open>j\<close>.\<close>

definition sem_of :: "runtime \<Rightarrow> config \<Rightarrow> json list \<Rightarrow> json \<Rightarrow> error + num" where
  "sem_of rt cfg qEmb j =
     (if useExternalScore cfg
      then (case opt_prop j (str ''score'') of JNum r \<Rightarrow> Inr (Some r) | _ \<Rightarrow> Inr (Some 0))
      else if qEmb \<noteq> [] \<and> truthy (opt_prop (opt_prop j (str ''embedding'')) (str ''length''))
      then cos rt qEmb (jsprop j (str ''embedding''))
      else Inr (Some 0))"

text \<open>BM25 (lines 138 and 175 to 186).\<close>

definition bm25_k1 :: real where
  "bm25_k1 = 1.2"

definition bm25_b :: real where
  "bm25_b = 0.75"

definition bm25_term :: "nat \<Rightarrow> real \<Rightarrow> real \<Rightarrow> real \<Rightarrow> real \<Rightarrow> real" where
  "bm25_term N df tf len avgLen =
     ln ((real N + 1) / df)
       * ((tf * (bm25_k1 + 1)) / (tf + bm25_k1 * (1 - bm25_b + bm25_b * (len / avgLen))))"

definition bm25_step :: "nat \<Rightarrow> counter \<Rightarrow> counter \<Rightarrow> real \<Rightarrow> real \<Rightarrow> num \<Rightarrow> ustring \<Rightarrow> num" where
  "bm25_step N df tfMap len avgLen acc t =
     (case read_cell tfMap t of
        None \<Rightarrow> acc
      | Some Junk \<Rightarrow> None
      | Some (Count tf) \<Rightarrow>
          if tf = 0 then acc
          else (case read_cell df t of
                  None \<Rightarrow> num2 (+) acc (Some (bm25_term N 1 (real tf) len avgLen))
                | Some Junk \<Rightarrow> None
                | Some (Count d) \<Rightarrow>
                    num2 (+) acc
                      (Some (bm25_term N (if d = 0 then 1 else real d) (real tf) len avgLen))))"

definition bm25_of :: "nat \<Rightarrow> counter \<Rightarrow> ustring list \<Rightarrow> ustring list \<Rightarrow> real \<Rightarrow> num" where
  "bm25_of N df qTok dTok avgLen =
     foldl (bm25_step N df (foldl bump Map.empty dTok)
              (if length dTok = 0 then 1 else real (length dTok)) avgLen)
       (Some 0) qTok"

text \<open>Exact overlap (line 188).\<close>

definition exact_of :: "ustring list \<Rightarrow> ustring list \<Rightarrow> real" where
  "exact_of qTok dTok = real (length (filter (\<lambda>t. t \<in> set dTok) qTok)) / real (length qTok)"

text \<open>Recency (lines 190 to 193).\<close>

definition rec_of :: "runtime \<Rightarrow> config \<Rightarrow> json \<Rightarrow> error + real" where
  "rec_of rt cfg j =
     (let ts = opt_prop j (str ''timestamp'')
      in (case (if truthy ts then date_time rt ts else Inr None) of
            Inl e \<Rightarrow> Inl e
          | Inr docTime \<Rightarrow>
              (let days = (case docTime of None \<Rightarrow> 999 | Some t \<Rightarrow> (now rt - t) / 86400000)
               in Inr (exp (- days / eff_recencyHalfLife cfg)))))"

text \<open>The learned model (lines 143 to 148).\<close>

record model_weights =
  wSem :: real
  wBm25 :: real
  wExact :: real
  wRec :: real
  bias :: real

definition model_numbers :: "runtime \<Rightarrow> config \<Rightarrow> real list" where
  "model_numbers rt cfg =
     map the (filter (\<lambda>x. x \<noteq> None)
       (map (\<lambda>x. stringToNumber rt (trim x)) (split_on 44 (modelWeights cfg))))"

definition parse_model_weights :: "runtime \<Rightarrow> config \<Rightarrow> error + model_weights option" where
  "parse_model_weights rt cfg =
     (if useModel cfg
      then (let arr = model_numbers rt cfg
            in if length arr \<noteq> 5
               then Inl (Error (str ''Model weights must contain exactly 5 numbers: sem,bm25,exact,rec,bias''))
               else Inr (Some \<lparr> wSem = arr ! 0, wBm25 = arr ! 1, wExact = arr ! 2,
                                wRec = arr ! 3, bias = arr ! 4 \<rparr>))
      else Inr None)"

text \<open>What one invocation has fixed before the batches are scored.\<close>

record ctx =
  c_qTok :: "ustring list"
  c_qEmb :: "json list"
  c_N :: nat
  c_globalDF :: counter
  c_modelWeights :: "model_weights option"

text \<open>The raw signals of one document (the first pass, lines 165 to 196).\<close>

record pre =
  p_it :: json
  p_sem :: num
  p_bm25 :: num
  p_exact :: real
  p_rec :: real

definition score_doc :: "runtime \<Rightarrow> config \<Rightarrow> ctx \<Rightarrow> real \<Rightarrow> json \<Rightarrow> error + pre" where
  "score_doc rt cfg cx avgLen it =
     (case doc_tokens rt cfg it of
        Inl e \<Rightarrow> Inl e
      | Inr dTok \<Rightarrow>
          (case sem_of rt cfg (c_qEmb cx) (jsprop it (str ''json'')) of
             Inl e \<Rightarrow> Inl e
           | Inr sem \<Rightarrow>
               (case rec_of rt cfg (jsprop it (str ''json'')) of
                  Inl e \<Rightarrow> Inl e
                | Inr r \<Rightarrow>
                    Inr \<lparr> p_it = it, p_sem = sem,
                          p_bm25 = bm25_of (c_N cx) (c_globalDF cx) (c_qTok cx) dTok avgLen,
                          p_exact = exact_of (c_qTok cx) dTok, p_rec = r \<rparr>)))"

text \<open>The normalizer of a batch (lines 199 to 208), built from the batch's raw values.\<close>

definition sigmoid :: "real \<Rightarrow> real" where
  "sigmoid v = 1 / (1 + exp (- v))"

definition norm_minmax :: "num list \<Rightarrow> num \<Rightarrow> num" where
  "norm_minmax vals v =
     (case those vals of
        None \<Rightarrow> None
      | Some rs \<Rightarrow>
          if rs = [] then None
          else (let minBM25 = fold min rs (hd rs); maxBM25 = fold max rs (hd rs)
                in if maxBM25 = minBM25 then Some 0
                   else map_option (\<lambda>x. (x - minBM25) / (maxBM25 - minBM25)) v))"

definition normBM25 :: "ustring \<Rightarrow> num list \<Rightarrow> num \<Rightarrow> num" where
  "normBM25 method vals v =
     (if method = str ''minmax'' then norm_minmax vals v else map_option sigmoid v)"

text \<open>The final score (lines 212 to 227).\<close>

definition final_score :: "config \<Rightarrow> model_weights option \<Rightarrow> pre \<Rightarrow> num \<Rightarrow> num" where
  "final_score cfg mw p nb =
     (case (if useModel cfg then mw else None) of
        Some m \<Rightarrow>
          map_option sigmoid
            (num2 (\<lambda>s n. s * wSem m + n * wBm25 m + p_exact p * wExact m + p_rec p * wRec m + bias m)
               (p_sem p) nb)
      | None \<Rightarrow>
          num2 (\<lambda>s n. s * w_sem (W cfg) + n * w_lex (W cfg) + p_exact p * w_exact (W cfg)
                        + p_rec p * w_time (W cfg))
            (p_sem p) nb)"

text \<open>The augmented copy of a document (lines 229 to 237).\<close>

definition debug_object :: "config \<Rightarrow> pre \<Rightarrow> outval" where
  "debug_object cfg p =
     JObj [(str ''sem'', JNum (p_sem p)), (str ''bm25'', JNum (p_bm25 p)),
           (str ''exact'', JNum (Some (p_exact p))), (str ''rec'', JNum (Some (p_rec p))),
           (str ''bm25n_method'', JStr (eff_normalizeMethod cfg)),
           (str ''weights'',
              JObj [(str ''sem'', JNum (Some (w_sem (W cfg)))),
                    (str ''lex'', JNum (Some (w_lex (W cfg)))),
                    (str ''exact'', JNum (Some (w_exact (W cfg)))),
                    (str ''time'', JNum (Some (w_time (W cfg)))),
                    (str ''sum'', JNum (Some (sumW cfg)))])]"

definition mk_out :: "config \<Rightarrow> pre \<Rightarrow> num \<Rightarrow> outval" where
  "mk_out cfg p final =
     (let j = AList.update (str ''bm25_raw'') (JNum (p_bm25 p))
                (AList.update (str ''rerank_score'') (JNum final)
                   (spread (lift (jsprop (p_it p) (str ''json'')))));
          j' = (if debug cfg then AList.update (str ''debug'') (debug_object cfg p) j else j)
      in JObj (AList.update (str ''json'') (JObj j') (spread (lift (p_it p)))))"

text \<open>
  One batch (the body of the loop of line 158). The first pass (lines 159 to 209) computes
  the average length and the four signals of every document of the batch.
\<close>

definition first_pass :: "runtime \<Rightarrow> config \<Rightarrow> ctx \<Rightarrow> json list \<Rightarrow> error + pre list" where
  "first_pass rt cfg cx batch =
     (case traverse (doc_tokens rt cfg) batch of
        Inl e \<Rightarrow> Inl e
      | Inr toks \<Rightarrow>
          (let avgLen = real (sum_list (map length toks)) / real (max (length batch) 1)
           in traverse (score_doc rt cfg cx avgLen) batch))"

text \<open>The second pass (lines 211 to 239) normalizes BM25 and builds the results.\<close>

definition score_batch :: "runtime \<Rightarrow> config \<Rightarrow> ctx \<Rightarrow> json list \<Rightarrow> error + outval list" where
  "score_batch rt cfg cx batch =
     (case first_pass rt cfg cx batch of
        Inl e \<Rightarrow> Inl e
      | Inr pre \<Rightarrow>
          Inr (map (\<lambda>p. mk_out cfg p
                          (final_score cfg (c_modelWeights cx) p
                             (normBM25 (eff_normalizeMethod cfg) (map p_bm25 pre) (p_bm25 p))))
                 pre))"

text \<open>
  The loop over the batches, \<open>for (let i = 0; i < docs.length; i += batchSize)\<close>. The step
  is a number that may be negative or fractional, so the loop need not end: \<open>None\<close> is a run
  that never returns.
\<close>

partial_function (option) batches ::
  "(json list \<Rightarrow> error + outval list) \<Rightarrow> json list \<Rightarrow> real \<Rightarrow> real \<Rightarrow> outval list
     \<Rightarrow> (error + outval list) option" where
  "batches score docs step i results =
     (if i < real (length docs)
      then (case score (js_slice docs i (i + step)) of
              Inl e \<Rightarrow> Some (Inl e)
            | Inr outs \<Rightarrow> batches score docs step (i + step) (results @ outs))
      else Some (Inr results))"

section \<open>Sorting\<close>

text \<open>
  The comparator of line 243, \<open>(a, b) => b.json.rerank_score - a.json.rerank_score\<close>, on
  the objects built by \<open>mk_out\<close>; the sort reads a result that is \<open>NaN\<close> as \<open>+0\<close>.
\<close>

definition rerank_score :: "outval \<Rightarrow> num" where
  "rerank_score out =
     (case own_prop (own_prop out (str ''json'')) (str ''rerank_score'') of
        JNum n \<Rightarrow> n
      | _ \<Rightarrow> None)"

definition compare_desc :: "outval \<Rightarrow> outval \<Rightarrow> real" where
  "compare_desc a b =
     (case num2 (-) (rerank_score b) (rerank_score a) of None \<Rightarrow> 0 | Some d \<Rightarrow> d)"

text \<open>
  \<open>Array.prototype.sort\<close> is stable. For a consistent comparator every stable sort returns
  the list below; for an inconsistent one the order is left to the engine, and insertion is
  this model's choice.
\<close>

fun insert_sorted :: "('a \<Rightarrow> 'a \<Rightarrow> real) \<Rightarrow> 'a \<Rightarrow> 'a list \<Rightarrow> 'a list" where
  "insert_sorted cmp x [] = [x]"
| "insert_sorted cmp x (y # ys) =
     (if cmp x y \<le> 0 then x # y # ys else y # insert_sorted cmp x ys)"

definition js_sort :: "('a \<Rightarrow> 'a \<Rightarrow> real) \<Rightarrow> 'a list \<Rightarrow> 'a list" where
  "js_sort cmp xs = foldr (insert_sorted cmp) xs []"

section \<open>The node's execute method\<close>

text \<open>
  Lines 103 to 244, once the first item has been validated: \<open>q\<close> is \<open>first.query\<close>,
  \<open>qEmb\<close> the elements of \<open>first.query_embedding\<close>, \<open>docs\<close> those of \<open>first.items\<close>.
\<close>

definition query_tokens :: "runtime \<Rightarrow> config \<Rightarrow> ustring \<Rightarrow> ustring list" where
  "query_tokens rt cfg q =
     tok_str rt (eff_minTokenLength cfg) (STOP rt cfg) (trim (toLowerCase rt q))"

text \<open>Lines 150 to 240: the document frequencies and the batches; the scored documents.\<close>

definition score_all ::
  "runtime \<Rightarrow> config \<Rightarrow> ustring list \<Rightarrow> json list \<Rightarrow> json list \<Rightarrow> model_weights option
     \<Rightarrow> (error + outval list) option" where
  "score_all rt cfg qTok qEmb docs mw =
     (case globalDF rt cfg qTok Map.empty docs of
        Inl e \<Rightarrow> Some (Inl e)
      | Inr df \<Rightarrow>
          batches
            (score_batch rt cfg
               \<lparr> c_qTok = qTok, c_qEmb = qEmb, c_N = length docs,
                 c_globalDF = df, c_modelWeights = mw \<rparr>)
            docs (eff_batchSize cfg) 0 [])"

text \<open>Line 243: the sort and the cut.\<close>

definition rank ::
  "runtime \<Rightarrow> config \<Rightarrow> ustring list \<Rightarrow> json list \<Rightarrow> json list \<Rightarrow> model_weights option
     \<Rightarrow> (error + outval list) option" where
  "rank rt cfg qTok qEmb docs mw =
     map_option
       (\<lambda>r. case r of
               Inl e \<Rightarrow> Inl e
             | Inr results \<Rightarrow> Inr (js_slice (js_sort compare_desc results) 0 (eff_topN cfg)))
       (score_all rt cfg qTok qEmb docs mw)"

definition rerank ::
  "runtime \<Rightarrow> config \<Rightarrow> ustring \<Rightarrow> json list \<Rightarrow> json list \<Rightarrow> (error + outval list) option" where
  "rerank rt cfg q qEmb docs =
     (let qTok = query_tokens rt cfg q
      in if qTok = [] \<or> docs = [] then Some (Inr [])
         else (case parse_model_weights rt cfg of
                 Inl e \<Rightarrow> Some (Inl e)
               | Inr mw \<Rightarrow> rank rt cfg qTok qEmb docs mw))"

text \<open>\<open>items[0].json || {}\<close> (line 98), for a first item that is an object.\<close>

definition first_json :: "json \<Rightarrow> json" where
  "first_json item0 =
     (let j = jsprop item0 (str ''json'') in if truthy j then j else JObj [])"

text \<open>
  The body of the \<open>try\<close> block: \<open>Inl\<close> is an exception thrown in it, \<open>Inr\<close> the array it
  hands to \<open>returnJsonArray\<close>. The warning about the sum of the weights (lines 88 to 92)
  only writes to the log.
\<close>

definition run :: "runtime \<Rightarrow> config \<Rightarrow> json list \<Rightarrow> (error + outval list) option" where
  "run rt cfg items =
     (case items of
        [] \<Rightarrow> Some (Inl (Error (str ''No input items provided.'')))
      | item0 # _ \<Rightarrow>
          if nullish item0 then Some (Inl (TypeError (str ''json'')))
          else (case jsprop (first_json item0) (str ''query'') of
                  JStr q \<Rightarrow>
                    (case jsprop (first_json item0) (str ''query_embedding'') of
                       JArr qEmb \<Rightarrow>
                         (case jsprop (first_json item0) (str ''items'') of
                            JArr docs \<Rightarrow> rerank rt cfg q qEmb docs
                          | _ \<Rightarrow> Some (Inl (Error (str ''Missing or invalid 'items' array.''))))
                     | _ \<Rightarrow> Some (Inl (Error (str ''Missing or invalid 'query_embedding'.''))))
                | _ \<Rightarrow> Some (Inl (Error (str ''Missing or invalid 'query'.'')))))"

text \<open>The \<open>catch\<close> clause (line 247) and the method as a whole.\<close>

definition error_message :: "runtime \<Rightarrow> error \<Rightarrow> ustring" where
  "error_message rt e = (case e of Error m \<Rightarrow> m | TypeError w \<Rightarrow> typeErrorMessage rt w)"

definition error_result :: "runtime \<Rightarrow> error \<Rightarrow> outval list" where
  "error_result rt e =
     [JObj [(str ''error'', JBool True),
            (str ''message'',
               JStr (if error_message rt e = [] then str ''Unknown reranker error''
                     else error_message rt e))]]"

definition execute :: "runtime \<Rightarrow> config \<Rightarrow> json list \<Rightarrow> outval list option" where
  "execute rt cfg items =
     map_option (\<lambda>r. case r of Inl e \<Rightarrow> error_result rt e | Inr out \<Rightarrow> out) (run rt cfg items)"

section \<open>An engine for ASCII text\<close>

text \<open>
  The examples below run on this instance of the engine's services. It agrees with
  ECMAScript on strings of ASCII characters and on plain decimal literals (an optional sign,
  digits, an optional fraction); the examples use no date string and convert no array or
  object.
\<close>

definition ascii_lower :: "ustring \<Rightarrow> ustring" where
  "ascii_lower s = map (\<lambda>c. if 65 \<le> c \<and> c \<le> 90 then c + 32 else c) s"

definition ascii_alnum :: "nat \<Rightarrow> bool" where
  "ascii_alnum c \<longleftrightarrow> (48 \<le> c \<and> c \<le> 57) \<or> (65 \<le> c \<and> c \<le> 90) \<or> (97 \<le> c \<and> c \<le> 122)"

definition is_digit :: "nat \<Rightarrow> bool" where
  "is_digit c \<longleftrightarrow> 48 \<le> c \<and> c \<le> 57"

definition digits_value :: "ustring \<Rightarrow> nat" where
  "digits_value s = foldl (\<lambda>n c. 10 * n + (c - 48)) 0 s"

definition decimal_literal :: "ustring \<Rightarrow> num" where
  "decimal_literal s =
     (let t = trim s;
          neg = (t \<noteq> [] \<and> hd t = 45);
          u = (if t \<noteq> [] \<and> (hd t = 45 \<or> hd t = 43) then tl t else t);
          ip = takeWhile is_digit u;
          r = dropWhile is_digit u;
          fp = (if r \<noteq> [] \<and> hd r = 46 then tl r else r)
      in if t = [] then Some 0
         else if list_all is_digit fp \<and> (ip \<noteq> [] \<or> fp \<noteq> [])
         then Some ((if neg then - 1 else 1)
                    * (real (digits_value ip) + real (digits_value fp) / 10 ^ length fp))
         else None)"

definition ascii_rt :: "real \<Rightarrow> runtime" where
  "ascii_rt clock =
     \<lparr> toLowerCase = ascii_lower, normalizeNFC = (\<lambda>s. s), isLetterOrNumber = ascii_alnum,
       stringToNumber = decimal_literal, objectToNumber = (\<lambda>v. Inr None),
       dateParse = (\<lambda>s. None), objectToDate = (\<lambda>v. Inr None), now = clock,
       typeErrorMessage = (\<lambda>w. str ''Cannot read properties'') \<rparr>"

definition default_config :: config where
  "default_config =
     \<lparr> topN = 5, batchSize = 200, semWeight = 0.7, lexWeight = 0.25, exactWeight = 0.10,
       timeWeight = 0.05, useExternalScore = False, recencyHalfLife = 60,
       minTokenLength = 2, normalizeMethod = str ''sigmoid'', customStopwords = [],
       useModel = False, modelWeights = [], debug = False \<rparr>"

text \<open>An input item \<open>{json: {query, query_embedding: [], items}}\<close> and a document with a chunk.\<close>

definition request :: "string \<Rightarrow> json list \<Rightarrow> json" where
  "request q docs =
     JObj [(str ''json'',
              JObj [(str ''query'', JStr (str q)), (str ''query_embedding'', JArr []),
                    (str ''items'', JArr docs)])]"

definition chunk_doc :: "string \<Rightarrow> json" where
  "chunk_doc c = JObj [(str ''json'', JObj [(str ''chunk'', JStr (str c))])]"


text \<open>
  Two configurations with the same effective settings: every parameter the method reads
  through \<open>Number(...) || d\<close> only after the default has been applied.
\<close>

definition same_settings :: "config \<Rightarrow> config \<Rightarrow> bool" where
  "same_settings cfg cfg' \<longleftrightarrow>
     eff_topN cfg = eff_topN cfg' \<and> eff_batchSize cfg = eff_batchSize cfg'
     \<and> eff_recencyHalfLife cfg = eff_recencyHalfLife cfg'
     \<and> eff_minTokenLength cfg = eff_minTokenLength cfg' \<and> W cfg = W cfg'
     \<and> useExternalScore cfg = useExternalScore cfg'
     \<and> eff_normalizeMethod cfg = eff_normalizeMethod cfg'
     \<and> customStopwords cfg = customStopwords cfg' \<and> useModel cfg = useModel cfg'
     \<and> modelWeights cfg = modelWeights cfg' \<and> debug cfg = debug cfg'"

text \<open>
  A counter in which only the names inherited from \<open>Object.prototype\<close> hold a value that
  is not a number.
\<close>

definition junk_only_inherited :: "counter \<Rightarrow> bool" where
  "junk_only_inherited m \<longleftrightarrow> (\<forall>k. m k = Some Junk \<longrightarrow> k \<in> set Object_prototype_names)"

text \<open>The number a counter holds for a token, 0 when it holds none.\<close>

definition count_at :: "counter \<Rightarrow> ustring \<Rightarrow> nat" where
  "count_at m t = (case m t of Some (Count n) \<Rightarrow> n | _ \<Rightarrow> 0)"


section \<open>Evaluation on examples\<close>

lemmas tok_eval = tok_str_def tok_def ascii_rt_def str_def BASE_STOP_def STOP_def customStop_def
  ascii_lower_def ascii_alnum_def is_ws_def trim_def query_tokens_def doc_tokens_def
  default_config_def eff_minTokenLength_def number_or_def chunk_doc_def opt_prop_def

lemmas run_eval = run_def rerank_def rank_def score_all_def first_pass_def first_json_def request_def parse_model_weights_def
  score_batch_def final_score_def normBM25_def mk_out_def js_sort_def js_slice_def rel_index_def
  trunc_def eff_topN_def eff_batchSize_def eff_normalizeMethod_def W_def lift_def
  score_doc_def sem_of_def rec_of_def bm25_of_def bm25_step_def exact_of_def
  bump_def read_cell_def Object_prototype_names_def eff_recencyHalfLife_def num2_def tok_eval

lemmas out_eval = compare_desc_def rerank_score_def update_conv' debug_object_def

lemma example_request:
  "jsprop (first_json (request q docs)) (str ''query'') = JStr (str q)"
  "jsprop (first_json (request q docs)) (str ''query_embedding'') = JArr []"
  "jsprop (first_json (request q docs)) (str ''items'') = JArr docs"
  "\<not> nullish (request q docs)"
  by (simp_all add: first_json_def request_def str_def)

lemmas num_eval = model_numbers_def decimal_literal_def is_digit_def digits_value_def
  trim_def is_ws_def ascii_rt_def str_def default_config_def

lemma two_weights:
  "model_numbers (ascii_rt 0) (default_config\<lparr>useModel := True, modelWeights := str ''0.1,0.2''\<rparr>)
     = [1 / 10, 1 / 5]"
  by (simp add: num_eval del: not_None_eq)

lemma five_weights:
  "model_numbers (ascii_rt 0) (default_config\<lparr>useModel := True, modelWeights := str ''1,2,3,4,5''\<rparr>)
     = [1, 2, 3, 4, 5]"
  by (simp add: num_eval del: not_None_eq)

lemma example_query_cfg:
  "query_tokens (ascii_rt c) (default_config\<lparr>useModel := u, modelWeights := w\<rparr>) (str ''cat'')
     = [str ''cat'']"
  by (simp add: tok_eval)

lemmas df_eval = tok_eval bump_def read_cell_def Object_prototype_names_def

section \<open>The normalizers\<close>

lemma those_map_Some: "those (map Some rs) = Some rs"
  by (induction rs) simp_all

lemma fold_min_hd: "rs \<noteq> [] \<Longrightarrow> fold min rs (hd rs) = Min (set rs)"
proof (cases rs)
  case Nil
  assume "rs \<noteq> []"
  with Nil show ?thesis by simp
next
  case (Cons x xs)
  then show ?thesis using Min.set_eq_fold [of x xs] by simp
qed

lemma fold_max_hd: "rs \<noteq> [] \<Longrightarrow> fold max rs (hd rs) = Max (set rs)"
proof (cases rs)
  case Nil
  assume "rs \<noteq> []"
  with Nil show ?thesis by simp
next
  case (Cons x xs)
  then show ?thesis using Max.set_eq_fold [of x xs] by simp
qed

lemma sigmoid_bounds: "0 < sigmoid v \<and> sigmoid v < 1"
  unfolding sigmoid_def by (simp add: add_pos_pos)

lemma norm_minmax_members:
  assumes "v \<in> set rs"
  shows "norm_minmax (map Some rs) (Some v) =
           Some (if Max (set rs) = Min (set rs) then 0
                 else (v - Min (set rs)) / (Max (set rs) - Min (set rs)))"
proof -
  from assms have ne: "rs \<noteq> []" by auto
  show ?thesis
    by (simp add: norm_minmax_def those_map_Some ne fold_min_hd fold_max_hd Let_def)
qed

lemma minmax_fraction_bounds:
  fixes v :: real
  assumes "v \<in> set rs" "Max (set rs) \<noteq> Min (set rs)"
  shows "0 \<le> (v - Min (set rs)) / (Max (set rs) - Min (set rs))"
    and "(v - Min (set rs)) / (Max (set rs) - Min (set rs)) \<le> 1"
proof -
  have lo: "Min (set rs) \<le> v" and hi: "v \<le> Max (set rs)"
    using assms(1) by simp_all
  then have "Min (set rs) \<le> Max (set rs)" by linarith
  with assms(2) have pos: "0 < Max (set rs) - Min (set rs)" by linarith
  show "0 \<le> (v - Min (set rs)) / (Max (set rs) - Min (set rs))"
    using lo pos by simp
  show "(v - Min (set rs)) / (Max (set rs) - Min (set rs)) \<le> 1"
    using hi pos by (simp add: divide_le_eq)
qed

text \<open>
  Claim C7. Whatever the method, the normalizer of a batch maps a finite raw BM25 value to a
  number between 0 and 1: the sigmoid does so for every value, the min-max normalizer for
  every value of the batch it was built from (the values it is applied to, lines 201 and
  216). When the largest and the smallest raw value of the batch coincide, the min-max
  normalizer returns 0 for every document of the batch.
\<close>

theorem normalizers_unit_interval:
  "(method \<noteq> str ''minmax'' \<longrightarrow>
      (\<exists>r. normBM25 method vals (Some v) = Some r \<and> 0 \<le> r \<and> r \<le> 1))
   \<and> (v \<in> set rs \<longrightarrow>
      (\<exists>r. normBM25 (str ''minmax'') (map Some rs) (Some v) = Some r \<and> 0 \<le> r \<and> r \<le> 1))
   \<and> (v \<in> set rs \<and> Max (set rs) = Min (set rs) \<longrightarrow>
      normBM25 (str ''minmax'') (map Some rs) (Some v) = Some 0)"
proof (intro conjI impI)
  assume "method \<noteq> str ''minmax''"
  then show "\<exists>r. normBM25 method vals (Some v) = Some r \<and> 0 \<le> r \<and> r \<le> 1"
    using sigmoid_bounds [of v] by (simp add: normBM25_def less_imp_le)
next
  assume v: "v \<in> set rs"
  show "\<exists>r. normBM25 (str ''minmax'') (map Some rs) (Some v) = Some r \<and> 0 \<le> r \<and> r \<le> 1"
  proof (cases "Max (set rs) = Min (set rs)")
    case True
    then show ?thesis by (simp add: normBM25_def norm_minmax_members [OF v])
  next
    case False
    then show ?thesis
      using minmax_fraction_bounds [OF v False]
      by (simp add: normBM25_def norm_minmax_members [OF v])
  qed
next
  assume "v \<in> set rs \<and> Max (set rs) = Min (set rs)"
  then show "normBM25 (str ''minmax'') (map Some rs) (Some v) = Some 0"
    by (simp add: normBM25_def norm_minmax_members)
qed

theorem normalizers_unit_interval_witness:
  "(\<exists>r. normBM25 (str ''sigmoid'') [Some 0, Some 3] (Some 3) = Some r \<and> 0 \<le> r \<and> r \<le> 1)
   \<and> (\<exists>r. normBM25 (str ''minmax'') (map Some [0, 3]) (Some 3) = Some r \<and> 0 \<le> r \<and> r \<le> 1)
   \<and> normBM25 (str ''minmax'') (map Some [2, 2]) (Some 2) = Some 0"
proof -
  have a: "str ''sigmoid'' \<noteq> str ''minmax''" by (simp add: str_def)
  have b: "(3::real) \<in> set [0, 3]" by simp
  have c: "(2::real) \<in> set [2, 2] \<and> Max (set [2, 2::real]) = Min (set [2, 2])" by simp
  show ?thesis
    using normalizers_unit_interval [of "str ''sigmoid''" "[Some 0, Some 3]" 3 "[0, 3]"]
      normalizers_unit_interval [of "str ''sigmoid''" "[]" 2 "[2, 2]"] a b c
    by blast
qed

section \<open>Exact overlap\<close>

lemma count_list_filter:
  "count_list (filter P xs) x = (if P x then count_list xs x else 0)"
  by (induction xs) auto

lemma length_filter_count:
  "length (filter P xs) = (\<Sum>x\<in>{x \<in> set xs. P x}. count_list xs x)"
proof -
  have "length (filter P xs) = sum (count_list (filter P xs)) (set (filter P xs))"
    by (rule sum_count_set [symmetric]) simp_all
  also have "\<dots> = (\<Sum>x\<in>{x \<in> set xs. P x}. count_list xs x)"
    by (rule sum.cong) (auto simp: count_list_filter)
  finally show ?thesis .
qed

text \<open>
  Claim C4, as stated: the exact-overlap signal is the fraction of the distinct query tokens
  that occur in the document. It fails for the query \<open>cat cat dog\<close> and the document
  \<open>cat\<close>: line 188 counts the two occurrences of \<open>cat\<close> among three query tokens and gives
  2/3, the fraction of distinct tokens is 1/2.
\<close>

theorem exact_overlap_distinct_counterexample:
  "query_tokens (ascii_rt 0) default_config (str ''cat cat dog'')
     = [str ''cat'', str ''cat'', str ''dog'']
   \<and> doc_tokens (ascii_rt 0) default_config (chunk_doc ''cat'') = Inr [str ''cat'']
   \<and> exact_of [str ''cat'', str ''cat'', str ''dog''] [str ''cat''] = 2 / 3
   \<and> real (card (set [str ''cat'', str ''cat'', str ''dog''] \<inter> set [str ''cat'']))
        / real (card (set [str ''cat'', str ''cat'', str ''dog''])) = 1 / 2"
proof (intro conjI)
  show "query_tokens (ascii_rt 0) default_config (str ''cat cat dog'')
     = [str ''cat'', str ''cat'', str ''dog'']"
    by (simp add: tok_eval)
  show "doc_tokens (ascii_rt 0) default_config (chunk_doc ''cat'') = Inr [str ''cat'']"
    by (simp add: tok_eval)
  show "exact_of [str ''cat'', str ''cat'', str ''dog''] [str ''cat''] = 2 / 3"
    by (simp add: exact_of_def str_def)
  show "real (card (set [str ''cat'', str ''cat'', str ''dog''] \<inter> set [str ''cat'']))
        / real (card (set [str ''cat'', str ''cat'', str ''dog''])) = 1 / 2"
    by (simp add: str_def)
qed

text \<open>
  Claim C4, amended. The exact-overlap signal is the fraction of the query-token occurrences
  whose token occurs in the document: a token that the query repeats is counted once per
  occurrence, above and below the line. For a query without repeated tokens this is the
  fraction of the distinct query tokens that occur in the document.
\<close>

theorem exact_overlap_counts_occurrences:
  "exact_of qTok dTok =
     real (\<Sum>t\<in>set qTok \<inter> set dTok. count_list qTok t) / real (length qTok)
   \<and> (distinct qTok \<longrightarrow>
        exact_of qTok dTok = real (card (set qTok \<inter> set dTok)) / real (card (set qTok)))"
proof
  have eq: "{x \<in> set qTok. x \<in> set dTok} = set qTok \<inter> set dTok" by auto
  show "exact_of qTok dTok =
     real (\<Sum>t\<in>set qTok \<inter> set dTok. count_list qTok t) / real (length qTok)"
    by (simp add: exact_of_def length_filter_count eq)
  show "distinct qTok \<longrightarrow>
        exact_of qTok dTok = real (card (set qTok \<inter> set dTok)) / real (card (set qTok))"
  proof
    assume d: "distinct qTok"
    have eq2: "set dTok \<inter> set qTok = set qTok \<inter> set dTok" by auto
    show "exact_of qTok dTok = real (card (set qTok \<inter> set dTok)) / real (card (set qTok))"
      by (simp add: exact_of_def distinct_length_filter [OF d] distinct_card [OF d] eq2)
  qed
qed

theorem exact_overlap_counts_occurrences_witness:
  "distinct [str ''cat'', str ''dog'']
   \<and> exact_of [str ''cat'', str ''dog''] [str ''cat'']
       = real (card (set [str ''cat'', str ''dog''] \<inter> set [str ''cat'']))
         / real (card (set [str ''cat'', str ''dog'']))
   \<and> exact_of [str ''cat'', str ''dog''] [str ''cat''] = 1 / 2"
proof -
  have d: "distinct [str ''cat'', str ''dog'']" by (simp add: str_def)
  have e: "exact_of [str ''cat'', str ''dog''] [str ''cat''] = 1 / 2"
    by (simp add: exact_of_def str_def)
  show ?thesis
    using exact_overlap_counts_occurrences [of "[str ''cat'', str ''dog'']" "[str ''cat'']"] d e
    by blast
qed

section \<open>Zero-valued parameters\<close>

lemma doc_tokens_cfg:
  "same_settings cfg cfg' \<Longrightarrow> doc_tokens rt cfg = doc_tokens rt cfg'"
  unfolding same_settings_def doc_tokens_def STOP_def customStop_def
  by (rule ext) (simp only:)

lemma globalDF_cfg:
  "same_settings cfg cfg' \<Longrightarrow> globalDF rt cfg qTok df docs = globalDF rt cfg' qTok df docs"
  by (induction docs arbitrary: df) (simp_all add: doc_tokens_cfg split: sum.splits)

lemma sem_of_cfg:
  "same_settings cfg cfg' \<Longrightarrow> sem_of rt cfg = sem_of rt cfg'"
  unfolding same_settings_def sem_of_def by (intro ext) (simp only:)

lemma rec_of_cfg:
  "same_settings cfg cfg' \<Longrightarrow> rec_of rt cfg = rec_of rt cfg'"
  unfolding same_settings_def rec_of_def by (intro ext) (simp only:)

lemma score_doc_cfg:
  "same_settings cfg cfg' \<Longrightarrow> score_doc rt cfg = score_doc rt cfg'"
  unfolding score_doc_def by (intro ext) (simp only: doc_tokens_cfg sem_of_cfg rec_of_cfg)

lemma W_cfg: "same_settings cfg cfg' \<Longrightarrow> W cfg = W cfg'"
  by (simp only: same_settings_def)

lemma method_cfg:
  "same_settings cfg cfg' \<Longrightarrow> eff_normalizeMethod cfg = eff_normalizeMethod cfg'"
  by (simp only: same_settings_def)

lemma debug_cfg: "same_settings cfg cfg' \<Longrightarrow> debug cfg = debug cfg'"
  by (simp only: same_settings_def)

lemma useModel_cfg: "same_settings cfg cfg' \<Longrightarrow> useModel cfg = useModel cfg'"
  by (simp only: same_settings_def)

lemma mk_out_cfg:
  "same_settings cfg cfg' \<Longrightarrow> mk_out cfg = mk_out cfg'"
  unfolding mk_out_def debug_object_def sumW_def
  by (intro ext) (simp only: W_cfg method_cfg debug_cfg)

lemma final_score_cfg:
  "same_settings cfg cfg' \<Longrightarrow> final_score cfg = final_score cfg'"
  unfolding final_score_def by (intro ext) (simp only: W_cfg useModel_cfg)

lemma score_batch_cfg:
  "same_settings cfg cfg' \<Longrightarrow> score_batch rt cfg = score_batch rt cfg'"
  unfolding score_batch_def first_pass_def
  by (intro ext)
    (simp only: doc_tokens_cfg score_doc_cfg mk_out_cfg final_score_cfg method_cfg)

lemma rank_cfg:
  assumes "same_settings cfg cfg'"
  shows "rank rt cfg = rank rt cfg'"
proof -
  have t: "eff_topN cfg = eff_topN cfg'" and b: "eff_batchSize cfg = eff_batchSize cfg'"
    using assms by (simp_all only: same_settings_def)
  show ?thesis
    unfolding rank_def score_all_def
    by (intro ext) (simp only: globalDF_cfg [OF assms] score_batch_cfg [OF assms] t b)
qed

lemma run_cfg:
  assumes "same_settings cfg cfg'"
  shows "run rt cfg items = run rt cfg' items"
proof -
  have q: "query_tokens rt cfg = query_tokens rt cfg'"
    using assms unfolding query_tokens_def STOP_def customStop_def same_settings_def
    by (intro ext) (simp only:)
  have p: "parse_model_weights rt cfg = parse_model_weights rt cfg'"
    using assms unfolding parse_model_weights_def model_numbers_def same_settings_def
    by (simp only:)
  have r: "rerank rt cfg = rerank rt cfg'"
    unfolding rerank_def by (intro ext) (simp only: q p rank_cfg [OF assms])
  show ?thesis unfolding run_def r by (rule refl)
qed

lemma execute_cfg:
  "same_settings cfg cfg' \<Longrightarrow> execute rt cfg items = execute rt cfg' items"
  by (simp add: execute_def run_cfg)

text \<open>
  Claim C9. For each of the eight numeric parameters read through \<open>Number(...) || d\<close>
  (\<open>topN\<close>, \<open>batchSize\<close>, \<open>recencyHalfLife\<close>, \<open>minTokenLength\<close> and the four fusion
  weights), an invocation configured with the value 0 returns what the invocation
  configured with the documented default returns, on every input; none of the eight
  values the method works with is ever 0.
\<close>

theorem zero_parameter_is_default:
  "execute rt (cfg\<lparr>topN := 0\<rparr>) items = execute rt (cfg\<lparr>topN := 5\<rparr>) items
   \<and> execute rt (cfg\<lparr>batchSize := 0\<rparr>) items = execute rt (cfg\<lparr>batchSize := 200\<rparr>) items
   \<and> execute rt (cfg\<lparr>recencyHalfLife := 0\<rparr>) items
       = execute rt (cfg\<lparr>recencyHalfLife := 60\<rparr>) items
   \<and> execute rt (cfg\<lparr>minTokenLength := 0\<rparr>) items
       = execute rt (cfg\<lparr>minTokenLength := 2\<rparr>) items
   \<and> execute rt (cfg\<lparr>semWeight := 0\<rparr>) items = execute rt (cfg\<lparr>semWeight := 0.7\<rparr>) items
   \<and> execute rt (cfg\<lparr>lexWeight := 0\<rparr>) items = execute rt (cfg\<lparr>lexWeight := 0.25\<rparr>) items
   \<and> execute rt (cfg\<lparr>exactWeight := 0\<rparr>) items
       = execute rt (cfg\<lparr>exactWeight := 0.10\<rparr>) items
   \<and> execute rt (cfg\<lparr>timeWeight := 0\<rparr>) items = execute rt (cfg\<lparr>timeWeight := 0.05\<rparr>) items
   \<and> eff_topN cfg \<noteq> 0 \<and> eff_batchSize cfg \<noteq> 0 \<and> eff_recencyHalfLife cfg \<noteq> 0
   \<and> eff_minTokenLength cfg \<noteq> 0 \<and> w_sem (W cfg) \<noteq> 0 \<and> w_lex (W cfg) \<noteq> 0
   \<and> w_exact (W cfg) \<noteq> 0 \<and> w_time (W cfg) \<noteq> 0"
proof -
  note defs = same_settings_def eff_topN_def eff_batchSize_def eff_recencyHalfLife_def
    eff_minTokenLength_def eff_normalizeMethod_def W_def number_or_def
  have 1: "same_settings (cfg\<lparr>topN := 0\<rparr>) (cfg\<lparr>topN := 5\<rparr>)"
    by (simp add: defs)
  have 2: "same_settings (cfg\<lparr>batchSize := 0\<rparr>) (cfg\<lparr>batchSize := 200\<rparr>)"
    by (simp add: defs)
  have 3: "same_settings (cfg\<lparr>recencyHalfLife := 0\<rparr>) (cfg\<lparr>recencyHalfLife := 60\<rparr>)"
    by (simp add: defs)
  have 4: "same_settings (cfg\<lparr>minTokenLength := 0\<rparr>) (cfg\<lparr>minTokenLength := 2\<rparr>)"
    by (simp add: defs)
  have 5: "same_settings (cfg\<lparr>semWeight := 0\<rparr>) (cfg\<lparr>semWeight := 0.7\<rparr>)"
    by (simp add: defs)
  have 6: "same_settings (cfg\<lparr>lexWeight := 0\<rparr>) (cfg\<lparr>lexWeight := 0.25\<rparr>)"
    by (simp add: defs)
  have 7: "same_settings (cfg\<lparr>exactWeight := 0\<rparr>) (cfg\<lparr>exactWeight := 0.10\<rparr>)"
    by (simp add: defs)
  have 8: "same_settings (cfg\<lparr>timeWeight := 0\<rparr>) (cfg\<lparr>timeWeight := 0.05\<rparr>)"
    by (simp add: defs)
  have 9: "eff_topN cfg \<noteq> 0" "eff_batchSize cfg \<noteq> 0" "eff_recencyHalfLife cfg \<noteq> 0"
    "eff_minTokenLength cfg \<noteq> 0" "w_sem (W cfg) \<noteq> 0" "w_lex (W cfg) \<noteq> 0"
    "w_exact (W cfg) \<noteq> 0" "w_time (W cfg) \<noteq> 0"
    by (simp_all add: defs)
  show ?thesis
    by (intro conjI execute_cfg 1 2 3 4 5 6 7 8 9)
qed

section \<open>The first input item\<close>

text \<open>
  Claim C10. Once there is a first item, the items after it have no effect on what the
  invocation returns (or on whether it returns); and for a first item that passes the
  validation, the invocation is the ranking of the query, the query embedding and the
  candidate documents found in that item's \<open>json\<close>.
\<close>

theorem only_first_item_is_read:
  "execute rt cfg (item0 # rest) = execute rt cfg (item0 # rest')
   \<and> (\<not> nullish item0 \<and> jsprop (first_json item0) (str ''query'') = JStr q
        \<and> jsprop (first_json item0) (str ''query_embedding'') = JArr qEmb
        \<and> jsprop (first_json item0) (str ''items'') = JArr docs \<longrightarrow>
        run rt cfg (item0 # rest) = rerank rt cfg q qEmb docs)"
proof
  show "execute rt cfg (item0 # rest) = execute rt cfg (item0 # rest')"
    by (simp add: execute_def run_def)
  show "\<not> nullish item0 \<and> jsprop (first_json item0) (str ''query'') = JStr q
        \<and> jsprop (first_json item0) (str ''query_embedding'') = JArr qEmb
        \<and> jsprop (first_json item0) (str ''items'') = JArr docs \<longrightarrow>
        run rt cfg (item0 # rest) = rerank rt cfg q qEmb docs"
    by (simp add: run_def)
qed

theorem only_first_item_is_read_witness:
  "execute (ascii_rt 0) default_config [request ''cat'' [chunk_doc ''cat''], JNull]
     = execute (ascii_rt 0) default_config [request ''cat'' [chunk_doc ''cat'']]
   \<and> run (ascii_rt 0) default_config [request ''cat'' [chunk_doc ''cat''], JNull]
     = rerank (ascii_rt 0) default_config (str ''cat'') [] [chunk_doc ''cat'']"
  using only_first_item_is_read
    [where rt = "ascii_rt 0" and cfg = default_config
       and ?item0.0 = "request ''cat'' [chunk_doc ''cat'']" and rest = "[JNull]" and rest' = "[]"
       and q = "str ''cat''" and qEmb = "[]" and docs = "[chunk_doc ''cat'']"]
  by (simp add: example_request)

section \<open>Slices and the loop over the batches\<close>

lemma rel_index_bounds: "0 \<le> len \<Longrightarrow> 0 \<le> rel_index len x \<and> rel_index len x \<le> len"
  by (simp add: rel_index_def Let_def)

lemma rel_index_nonneg: "0 \<le> x \<Longrightarrow> rel_index len x = min \<lfloor>x\<rfloor> len"
  by (simp add: rel_index_def trunc_def Let_def)

lemma length_js_slice:
  "length (js_slice xs s e) =
     nat (rel_index (int (length xs)) e - rel_index (int (length xs)) s)"
proof -
  have b: "0 \<le> rel_index (int (length xs)) s" "rel_index (int (length xs)) s \<le> int (length xs)"
    "0 \<le> rel_index (int (length xs)) e" "rel_index (int (length xs)) e \<le> int (length xs)"
    using rel_index_bounds [of "int (length xs)"] by simp_all
  then show ?thesis
    by (simp add: js_slice_def Let_def)
qed

lemma set_js_slice: "set (js_slice xs s e) \<subseteq> set xs"
  unfolding js_slice_def Let_def
  by (meson set_take_subset set_drop_subset subset_trans)

lemma length_js_slice_forward:
  assumes "0 \<le> i" "0 < step"
  shows "min \<lfloor>i\<rfloor> (int (length xs)) + int (length (js_slice xs i (i + step)))
           = min \<lfloor>i + step\<rfloor> (int (length xs))"
proof -
  have m: "\<lfloor>i\<rfloor> \<le> \<lfloor>i + step\<rfloor>" using assms by (intro floor_mono) simp
  have "0 \<le> i + step" using assms by simp
  then have l: "length (js_slice xs i (i + step))
      = nat (min \<lfloor>i + step\<rfloor> (int (length xs)) - min \<lfloor>i\<rfloor> (int (length xs)))"
    using assms(1) by (simp only: length_js_slice rel_index_nonneg)
  show ?thesis
    unfolding l using m by linarith
qed

lemma batches_length_aux:
  assumes "batches score docs step i acc = Some y"
  shows "0 < step \<longrightarrow> 0 \<le> i
      \<longrightarrow> (\<forall>b outs. score b = Inr outs \<longrightarrow> length outs = length b)
      \<longrightarrow> int (length acc) = min \<lfloor>i\<rfloor> (int (length docs))
      \<longrightarrow> (\<forall>r. y = Inr r \<longrightarrow> length r = length docs)"
proof (rule batches.raw_induct
    [where P = "\<lambda>score docs step i acc y. 0 < step \<longrightarrow> 0 \<le> i
      \<longrightarrow> (\<forall>b outs. score b = Inr outs \<longrightarrow> length outs = length b)
      \<longrightarrow> int (length acc) = min \<lfloor>i\<rfloor> (int (length docs))
      \<longrightarrow> (\<forall>r. y = Inr r \<longrightarrow> length r = length docs)", OF _ assms], goal_cases)
  case (1 f score docs step i acc y)
  show ?case
  proof (intro impI allI)
    fix r
    assume step: "0 < step" and i: "0 \<le> i"
      and len: "\<forall>b outs. score b = Inr outs \<longrightarrow> length outs = length b"
      and acc: "int (length acc) = min \<lfloor>i\<rfloor> (int (length docs))"
      and y: "y = Inr r"
    show "length r = length docs"
    proof (cases "i < real (length docs)")
      case False
      with 1(2) y have r: "r = acc" by simp
      from False have "int (length docs) \<le> \<lfloor>i\<rfloor>" by (simp add: le_floor_iff)
      with acc r show ?thesis by simp
    next
      case True
      show ?thesis
      proof (cases "score (js_slice docs i (i + step))")
        case (Inl e)
        with True 1(2) y show ?thesis by simp
      next
        case (Inr outs)
        with True 1(2) have f: "f score docs step (i + step) (acc @ outs) = Some y" by simp
        from len Inr have "length outs = length (js_slice docs i (i + step))" by blast
        with acc length_js_slice_forward [OF i step, of docs]
        have "int (length (acc @ outs)) = min \<lfloor>i + step\<rfloor> (int (length docs))" by simp
        with 1(1) [OF f] step i len y show ?thesis by simp
      qed
    qed
  qed
qed

lemma batches_length:
  assumes "batches score docs step 0 [] = Some (Inr r)" and "0 < step"
    and "\<And>b outs. score b = Inr outs \<Longrightarrow> length outs = length b"
  shows "length r = length docs"
  using batches_length_aux [OF assms(1)] assms(2,3) by simp

lemma batches_backward_aux:
  assumes "batches score docs step i acc = Some y"
  shows "step < 0 \<longrightarrow> i \<le> 0 \<longrightarrow> docs \<noteq> [] \<longrightarrow> (\<forall>r. y \<noteq> Inr r)"
proof (rule batches.raw_induct
    [where P = "\<lambda>score docs step i acc y.
       step < 0 \<longrightarrow> i \<le> 0 \<longrightarrow> docs \<noteq> [] \<longrightarrow> (\<forall>r. y \<noteq> Inr r)", OF _ assms], goal_cases)
  case (1 f score docs step i acc y)
  show ?case
  proof (intro impI allI)
    fix r
    assume step: "step < 0" and i: "i \<le> 0" and docs: "docs \<noteq> []"
    then have lt: "i < real (length docs)" by (cases docs) simp_all
    show "y \<noteq> Inr r"
    proof (cases "score (js_slice docs i (i + step))")
      case (Inl e)
      with lt 1(2) show ?thesis by auto
    next
      case (Inr outs)
      with lt 1(2) have "f score docs step (i + step) (acc @ outs) = Some y" by simp
      from 1(1) [OF this] step i docs show ?thesis by simp
    qed
  qed
qed

lemma batches_backward:
  "batches score docs step 0 [] = Some (Inr r) \<Longrightarrow> docs \<noteq> [] \<Longrightarrow> step \<noteq> 0 \<Longrightarrow> 0 < step"
  using batches_backward_aux [of score docs step 0 "[]" "Inr r"] by force



section \<open>The scored documents and the sort\<close>

lemma traverse_length: "traverse f xs = Inr ys \<Longrightarrow> length ys = length xs"
  by (induction xs arbitrary: ys) (auto split: sum.splits)

lemma traverse_set:
  "traverse f xs = Inr ys \<Longrightarrow> y \<in> set ys \<Longrightarrow> \<exists>x \<in> set xs. f x = Inr y"
  by (induction xs arbitrary: ys) (auto split: sum.splits)


lemma score_batch_length: "score_batch rt cfg cx b = Inr outs \<Longrightarrow> length outs = length b"
  by (auto simp: score_batch_def first_pass_def Let_def split: sum.splits dest: traverse_length)

lemma str_neq:
  "str ''rerank_score'' \<noteq> str ''bm25_raw''" "str ''rerank_score'' \<noteq> str ''debug''"
  "str ''bm25_raw'' \<noteq> str ''rerank_score''" "str ''debug'' \<noteq> str ''rerank_score''"
  by (simp_all add: str_def)

lemma rerank_score_mk_out: "rerank_score (mk_out cfg p final) = final"
  by (simp add: rerank_score_def mk_out_def Let_def update_conv' str_neq)

lemma junk_empty: "junk_only_inherited Map.empty"
  by (simp add: junk_only_inherited_def)

lemma junk_bump: "junk_only_inherited m \<Longrightarrow> junk_only_inherited (bump m t)"
  by (auto simp: junk_only_inherited_def bump_def read_cell_def split: option.splits cell.splits if_splits)

lemma junk_foldl_cond:
  "junk_only_inherited m \<Longrightarrow>
   junk_only_inherited (foldl (\<lambda>m t. if t \<in> S then bump m t else m) m ts)"
  by (induction ts arbitrary: m) (simp_all add: junk_bump)

text \<open>
  In learned-model mode every result of a batch is the copy of a document of the batch whose
  \<open>rerank_score\<close> is the logistic function of the linear combination of the document's four
  signals with the five coefficients.
\<close>

lemma score_batch_model:
  assumes "score_batch rt cfg cx b = Inr outs" and "useModel cfg"
    and "c_modelWeights cx = Some m"
  shows "\<exists>pre. first_pass rt cfg cx b = Inr pre
     \<and> outs = map (\<lambda>p. mk_out cfg p
                 (map_option sigmoid
                    (num2 (\<lambda>s n. s * wSem m + n * wBm25 m + p_exact p * wExact m
                                   + p_rec p * wRec m + bias m)
                       (p_sem p)
                       (normBM25 (eff_normalizeMethod cfg) (map p_bm25 pre) (p_bm25 p))))) pre"
  using assms by (auto simp: score_batch_def final_score_def split: sum.splits)

lemma batches_all_aux:
  assumes "batches score docs step i acc = Some y"
  shows "(\<forall>j outs. score (js_slice docs j (j + step)) = Inr outs \<longrightarrow> list_all Q outs)
           \<longrightarrow> list_all Q acc \<longrightarrow> (\<forall>r. y = Inr r \<longrightarrow> list_all Q r)"
proof (rule batches.raw_induct
    [where P = "\<lambda>score docs step i acc y.
       (\<forall>j outs. score (js_slice docs j (j + step)) = Inr outs \<longrightarrow> list_all Q outs)
           \<longrightarrow> list_all Q acc \<longrightarrow> (\<forall>r. y = Inr r \<longrightarrow> list_all Q r)", OF _ assms], goal_cases)
  case (1 f score docs step i acc y)
  show ?case
  proof (intro impI allI)
    fix r
    assume s: "\<forall>j outs. score (js_slice docs j (j + step)) = Inr outs \<longrightarrow> list_all Q outs"
      and acc: "list_all Q acc" and y: "y = Inr r"
    show "list_all Q r"
    proof (cases "i < real (length docs)")
      case False
      with 1(2) y acc show ?thesis by auto
    next
      case True
      show ?thesis
      proof (cases "score (js_slice docs i (i + step))")
        case (Inl e)
        with True 1(2) y show ?thesis by simp
      next
        case (Inr outs)
        with True 1(2) have f: "f score docs step (i + step) (acc @ outs) = Some y" by simp
        from s Inr have "list_all Q outs" by blast
        with acc have "list_all Q (acc @ outs)" by simp
        with 1(1) [OF f] s y show ?thesis by simp
      qed
    qed
  qed
qed

text \<open>What holds of the results of every batch holds of all the scored documents.\<close>

lemma batches_all:
  assumes "batches score docs step 0 [] = Some (Inr r)"
    and "\<And>j outs. score (js_slice docs j (j + step)) = Inr outs \<Longrightarrow> list_all Q outs"
  shows "list_all Q r"
  using batches_all_aux [OF assms(1), of Q] assms(2) by simp

lemma set_insert_sorted: "set (insert_sorted cmp x ys) = insert x (set ys)"
  by (induction ys) auto

lemma length_insert_sorted: "length (insert_sorted cmp x ys) = Suc (length ys)"
  by (induction ys) auto

lemma set_js_sort: "set (js_sort cmp xs) = set xs"
  unfolding js_sort_def by (induction xs) (simp_all add: set_insert_sorted)

lemma length_js_sort: "length (js_sort cmp xs) = length xs"
  unfolding js_sort_def by (induction xs) (simp_all add: length_insert_sorted)

lemma sorted_insert_sorted:
  fixes key :: "'a \<Rightarrow> real"
  assumes "\<And>a b. a \<in> S \<Longrightarrow> b \<in> S \<Longrightarrow> (cmp a b \<le> 0) = (key b \<le> key a)"
  shows "x \<in> S \<Longrightarrow> set ys \<subseteq> S \<Longrightarrow> sorted_wrt (\<lambda>a b. key b \<le> key a) ys \<Longrightarrow>
    sorted_wrt (\<lambda>a b. key b \<le> key a) (insert_sorted cmp x ys)"
proof (induction ys)
  case Nil
  then show ?case by simp
next
  case (Cons y ys)
  show ?case
  proof (cases "cmp x y \<le> 0")
    case True
    with assms [of x y] Cons.prems have "key y \<le> key x" by simp
    with True Cons.prems show ?thesis by auto
  next
    case False
    with assms [of x y] Cons.prems have "key x \<le> key y" by simp
    with False Cons show ?thesis by (auto simp: set_insert_sorted)
  qed
qed

lemma sorted_js_sort:
  fixes key :: "'a \<Rightarrow> real"
  assumes "\<And>a b. a \<in> S \<Longrightarrow> b \<in> S \<Longrightarrow> (cmp a b \<le> 0) = (key b \<le> key a)"
  shows "set xs \<subseteq> S \<Longrightarrow> sorted_wrt (\<lambda>a b. key b \<le> key a) (js_sort cmp xs)"
proof (induction xs)
  case Nil
  then show ?case by (simp add: js_sort_def)
next
  case (Cons x xs)
  then have "sorted_wrt (\<lambda>a b. key b \<le> key a) (js_sort cmp xs)" by simp
  from sorted_insert_sorted [of S cmp key x "js_sort cmp xs", OF assms _ _ this] Cons.prems
  show ?case by (simp add: js_sort_def set_js_sort [unfolded js_sort_def])
qed

lemma compare_desc_numbers:
  "rerank_score a \<noteq> None \<Longrightarrow> rerank_score b \<noteq> None \<Longrightarrow>
   (compare_desc a b \<le> 0) = (the (rerank_score b) \<le> the (rerank_score a))"
  by (auto simp: compare_desc_def num2_def)

lemma sorted_js_slice: "sorted_wrt R xs \<Longrightarrow> sorted_wrt R (js_slice xs s e)"
  unfolding js_slice_def Let_def by (intro sorted_wrt_take sorted_wrt_drop)

section \<open>Top N\<close>

text \<open>
  With a positive batch size the loop ends, and so does the method: it returns an array,
  the results or the error result. With a negative batch size and documents to score, the
  loop never ends unless scoring a batch throws (\<open>batches_backward\<close>).
\<close>

lemma batches_returns:
  assumes "0 < step"
  shows "\<exists>y. batches score docs step i acc = Some y"
proof (induction "nat \<lceil>(real (length docs) - i) / step\<rceil>" arbitrary: i acc rule: less_induct)
  case less
  show ?case
  proof (cases "i < real (length docs)")
    case False
    then show ?thesis by (subst batches.simps) simp
  next
    case True
    show ?thesis
    proof (cases "score (js_slice docs i (i + step))")
      case (Inl e)
      with True show ?thesis by (subst batches.simps) simp
    next
      case (Inr outs)
      have "(real (length docs) - (i + step)) / step = (real (length docs) - i) / step - 1"
        using assms(1) by (simp add: field_simps)
      moreover have "0 < (real (length docs) - i) / step" using True assms(1) by simp
      ultimately have "nat \<lceil>(real (length docs) - (i + step)) / step\<rceil>
          < nat \<lceil>(real (length docs) - i) / step\<rceil>"
        by simp
      from less [OF this] obtain y
        where "batches score docs step (i + step) (acc @ outs) = Some y" by blast
      with True Inr show ?thesis by (subst batches.simps) simp
    qed
  qed
qed

lemma execute_returns:
  assumes "0 < eff_batchSize cfg"
  shows "\<exists>out. execute rt cfg items = Some out"
proof -
  have k: "\<exists>r. rank rt cfg qTok qEmb docs mw = Some r" for qTok qEmb docs mw
  proof (cases "globalDF rt cfg qTok Map.empty docs")
    case (Inl e)
    then show ?thesis by (simp add: rank_def score_all_def)
  next
    case (Inr df)
    from batches_returns [OF assms] obtain y where
      "batches (score_batch rt cfg
                  \<lparr> c_qTok = qTok, c_qEmb = qEmb, c_N = length docs,
                    c_globalDF = df, c_modelWeights = mw \<rparr>)
               docs (eff_batchSize cfg) 0 [] = Some y" by blast
    with Inr show ?thesis by (simp add: rank_def score_all_def)
  qed
  have r: "\<exists>r. rerank rt cfg q qEmb docs = Some r" for q qEmb docs
    using k by (cases "parse_model_weights rt cfg") (auto simp: rerank_def Let_def)
  have "\<exists>r. run rt cfg items = Some r"
    using r by (auto simp: run_def split: list.splits jsval.splits)
  then show ?thesis by (auto simp: execute_def)
qed

lemma run_success:
  assumes "run rt cfg (item0 # rest) = Some (Inr out)"
    and "jsprop (first_json item0) (str ''query'') = JStr q"
    and "jsprop (first_json item0) (str ''items'') = JArr docs"
    and "query_tokens rt cfg q \<noteq> []" and "docs \<noteq> []"
  obtains qEmb mw results where
    "jsprop (first_json item0) (str ''query_embedding'') = JArr qEmb"
    "parse_model_weights rt cfg = Inr mw"
    "score_all rt cfg (query_tokens rt cfg q) qEmb docs mw = Some (Inr results)"
    "out = js_slice (js_sort compare_desc results) 0 (eff_topN cfg)"
proof -
  from assms(1) have nn: "\<not> nullish item0" by (auto simp: run_def split: if_splits)
  from assms(1,2) nn obtain qEmb where
    e: "jsprop (first_json item0) (str ''query_embedding'') = JArr qEmb"
    by (auto simp: run_def split: jsval.splits)
  with assms nn have r: "rerank rt cfg q qEmb docs = Some (Inr out)"
    by (simp add: run_def)
  with assms(4,5) obtain mw where mw: "parse_model_weights rt cfg = Inr mw"
    and k: "rank rt cfg (query_tokens rt cfg q) qEmb docs mw = Some (Inr out)"
    by (auto simp: rerank_def Let_def split: sum.splits)
  from k obtain z where z: "score_all rt cfg (query_tokens rt cfg q) qEmb docs mw = Some z"
    and c: "(case z of Inl e \<Rightarrow> Inl e
            | Inr results \<Rightarrow> Inr (js_slice (js_sort compare_desc results) 0 (eff_topN cfg)))
          = Inr out"
    by (auto simp: rank_def)
  from c obtain results where "z = Inr results"
    and o: "out = js_slice (js_sort compare_desc results) 0 (eff_topN cfg)"
    by (cases z) auto
  with z have b: "score_all rt cfg (query_tokens rt cfg q) qEmb docs mw = Some (Inr results)"
    by simp
  from e mw b o show ?thesis by (rule that)
qed

lemma score_all_batches:
  assumes "score_all rt cfg qTok qEmb docs mw = Some (Inr results)"
  obtains df where
    "globalDF rt cfg qTok Map.empty docs = Inr df"
    "batches (score_batch rt cfg
                \<lparr> c_qTok = qTok, c_qEmb = qEmb, c_N = length docs,
                  c_globalDF = df, c_modelWeights = mw \<rparr>)
       docs (eff_batchSize cfg) 0 [] = Some (Inr results)"
  using assms by (auto simp: score_all_def split: sum.splits)

lemma eff_batchSize_nonzero: "eff_batchSize cfg \<noteq> 0"
  by (simp add: eff_batchSize_def number_or_def)

lemma length_cut:
  "0 \<le> t \<Longrightarrow> length (js_slice xs 0 t) = min (nat \<lfloor>t\<rfloor>) (length xs)"
  by (simp add: length_js_slice rel_index_nonneg)

lemma sorted_cut:
  assumes "list_all (\<lambda>x. rerank_score x \<noteq> None) rs"
  shows "list_all (\<lambda>x. rerank_score x \<noteq> None) (js_slice (js_sort compare_desc rs) 0 t)
     \<and> sorted_wrt (\<lambda>a b. the (rerank_score b) \<le> the (rerank_score a))
         (js_slice (js_sort compare_desc rs) 0 t)"
proof -
  from assms have n: "set rs \<subseteq> {x. rerank_score x \<noteq> None}"
    by (auto simp: list_all_iff simp del: not_None_eq)
  have s: "sorted_wrt (\<lambda>a b. the (rerank_score b) \<le> the (rerank_score a))
             (js_sort compare_desc rs)"
    by (rule sorted_js_sort [OF _ n]) (simp add: compare_desc_numbers del: not_None_eq)
  have "set (js_slice (js_sort compare_desc rs) 0 t) \<subseteq> set rs"
    using set_js_slice [of "js_sort compare_desc rs"] by (simp add: set_js_sort)
  with n have "list_all (\<lambda>x. rerank_score x \<noteq> None) (js_slice (js_sort compare_desc rs) 0 t)"
    by (auto simp: list_all_iff simp del: not_None_eq)
  with s show ?thesis by (simp add: sorted_js_slice del: not_None_eq)
qed

text \<open>
  Claim C1, amended. Whenever the \<open>try\<close> block returns normally for a request with a
  non-empty query-token sequence and a non-empty document list, the method returns that
  array; for a non-negative \<open>topN\<close> its length is the minimum of \<open>topN\<close>, truncated to a
  whole number, and the number of documents, so for a whole number \<open>topN\<close> it is
  min(topN, number of documents). The array is the sorted and cut array of the scored
  documents, one for each input document; when the \<open>rerank_score\<close> of every scored document
  is a number (not \<open>NaN\<close>), it is sorted by \<open>rerank_score\<close> in descending order. The last
  part is a property of line 243 alone: it holds of every array of scored documents whose
  scores are numbers, however the scores were computed.
\<close>

theorem top_n_sorted:
  assumes "run rt cfg (item0 # rest) = Some (Inr out)"
    and "jsprop (first_json item0) (str ''query'') = JStr q"
    and "jsprop (first_json item0) (str ''items'') = JArr docs"
    and "query_tokens rt cfg q \<noteq> []" and "docs \<noteq> []"
  shows "execute rt cfg (item0 # rest) = Some out
     \<and> (0 \<le> eff_topN cfg \<longrightarrow> length out = min (nat \<lfloor>eff_topN cfg\<rfloor>) (length docs))
     \<and> (eff_topN cfg = real k \<longrightarrow> length out = min k (length docs))
     \<and> (\<exists>qEmb mw results.
          jsprop (first_json item0) (str ''query_embedding'') = JArr qEmb
          \<and> parse_model_weights rt cfg = Inr mw
          \<and> score_all rt cfg (query_tokens rt cfg q) qEmb docs mw = Some (Inr results)
          \<and> length results = length docs
          \<and> out = js_slice (js_sort compare_desc results) 0 (eff_topN cfg)
          \<and> (list_all (\<lambda>x. rerank_score x \<noteq> None) results \<longrightarrow>
               list_all (\<lambda>x. rerank_score x \<noteq> None) out
               \<and> sorted_wrt (\<lambda>a b. the (rerank_score b) \<le> the (rerank_score a)) out))
     \<and> (\<forall>rs t. list_all (\<lambda>x. rerank_score x \<noteq> None) rs \<longrightarrow>
          sorted_wrt (\<lambda>a b. the (rerank_score b) \<le> the (rerank_score a))
            (js_slice (js_sort compare_desc rs) 0 t))"
proof -
  from assms obtain qEmb mw results where
    e: "jsprop (first_json item0) (str ''query_embedding'') = JArr qEmb"
    and mw: "parse_model_weights rt cfg = Inr mw"
    and sc: "score_all rt cfg (query_tokens rt cfg q) qEmb docs mw = Some (Inr results)"
    and out: "out = js_slice (js_sort compare_desc results) 0 (eff_topN cfg)"
    by (rule run_success)
  from sc obtain df where
    b: "batches (score_batch rt cfg
                \<lparr> c_qTok = query_tokens rt cfg q, c_qEmb = qEmb, c_N = length docs,
                  c_globalDF = df, c_modelWeights = mw \<rparr>)
       docs (eff_batchSize cfg) 0 [] = Some (Inr results)"
    by (rule score_all_batches)
  have step: "0 < eff_batchSize cfg"
    by (rule batches_backward [OF b assms(5) eff_batchSize_nonzero])
  have len: "length results = length docs"
    by (rule batches_length [OF b step]) (rule score_batch_length)
  have 1: "execute rt cfg (item0 # rest) = Some out"
    using assms(1) by (simp add: execute_def)
  have 2: "0 \<le> eff_topN cfg \<longrightarrow> length out = min (nat \<lfloor>eff_topN cfg\<rfloor>) (length docs)"
    by (simp add: out length_cut length_js_sort len)
  have 3: "eff_topN cfg = real k \<longrightarrow> length out = min k (length docs)"
    using 2 by auto
  have 4: "list_all (\<lambda>x. rerank_score x \<noteq> None) results \<longrightarrow>
             list_all (\<lambda>x. rerank_score x \<noteq> None) out
             \<and> sorted_wrt (\<lambda>a b. the (rerank_score b) \<le> the (rerank_score a)) out"
    unfolding out using sorted_cut by blast
  have 5: "\<forall>rs t. list_all (\<lambda>x. rerank_score x \<noteq> None) rs \<longrightarrow>
          sorted_wrt (\<lambda>a b. the (rerank_score b) \<le> the (rerank_score a))
            (js_slice (js_sort compare_desc rs) 0 t)"
    using sorted_cut by blast
  from e mw sc len out 4
  have 6: "\<exists>qEmb mw results.
          jsprop (first_json item0) (str ''query_embedding'') = JArr qEmb
          \<and> parse_model_weights rt cfg = Inr mw
          \<and> score_all rt cfg (query_tokens rt cfg q) qEmb docs mw = Some (Inr results)
          \<and> length results = length docs
          \<and> out = js_slice (js_sort compare_desc results) 0 (eff_topN cfg)
          \<and> (list_all (\<lambda>x. rerank_score x \<noteq> None) results \<longrightarrow>
               list_all (\<lambda>x. rerank_score x \<noteq> None) out
               \<and> sorted_wrt (\<lambda>a b. the (rerank_score b) \<le> the (rerank_score a)) out)"
    by blast
  from 1 2 3 6 5 show ?thesis by blast
qed

section \<open>Failures\<close>

lemma error_result_nonempty:
  "\<exists>m. m \<noteq> []
     \<and> error_result rt e = [JObj [(str ''error'', JBool True), (str ''message'', JStr m)]]"
proof (cases "error_message rt e = []")
  case True
  have "str ''Unknown reranker error'' \<noteq> []" by (simp add: str_def)
  with True show ?thesis unfolding error_result_def by (intro exI [of _ "str ''Unknown reranker error''"]) simp
next
  case False
  then show ?thesis unfolding error_result_def by (intro exI [of _ "error_message rt e"]) simp
qed

lemma execute_error: "run rt cfg items = Some (Inl e) \<Longrightarrow> execute rt cfg items = Some (error_result rt e)"
  by (simp add: execute_def)

lemma error_result_Error:
  "m \<noteq> [] \<Longrightarrow>
   error_result rt (Error m) = [JObj [(str ''error'', JBool True), (str ''message'', JStr m)]]"
  by (simp add: error_result_def error_message_def)

lemma run_no_items: "run rt cfg [] = Some (Inl (Error (str ''No input items provided.'')))"
  by (simp add: run_def)

lemma run_bad_query:
  assumes "\<not> nullish item0" "\<forall>q. jsprop (first_json item0) (str ''query'') \<noteq> JStr q"
  shows "run rt cfg (item0 # rest) = Some (Inl (Error (str ''Missing or invalid 'query'.'')))"
  using assms by (cases "jsprop (first_json item0) (str ''query'')") (simp_all add: run_def)

lemma run_bad_embedding:
  assumes "\<not> nullish item0" "jsprop (first_json item0) (str ''query'') = JStr q"
    "\<forall>a. jsprop (first_json item0) (str ''query_embedding'') \<noteq> JArr a"
  shows "run rt cfg (item0 # rest)
           = Some (Inl (Error (str ''Missing or invalid 'query_embedding'.'')))"
  using assms
  by (cases "jsprop (first_json item0) (str ''query_embedding'')") (simp_all add: run_def)

lemma run_bad_items:
  assumes "\<not> nullish item0" "jsprop (first_json item0) (str ''query'') = JStr q"
    "jsprop (first_json item0) (str ''query_embedding'') = JArr qEmb"
    "\<forall>d. jsprop (first_json item0) (str ''items'') \<noteq> JArr d"
  shows "run rt cfg (item0 # rest)
           = Some (Inl (Error (str ''Missing or invalid 'items' array.'')))"
  using assms
  by (cases "jsprop (first_json item0) (str ''items'')") (simp_all add: run_def)

lemma run_valid:
  assumes "\<not> nullish item0" "jsprop (first_json item0) (str ''query'') = JStr q"
    "jsprop (first_json item0) (str ''query_embedding'') = JArr qEmb"
    "jsprop (first_json item0) (str ''items'') = JArr docs"
  shows "run rt cfg (item0 # rest) = rerank rt cfg q qEmb docs"
  using assms by (simp add: run_def)

lemma rerank_bad_model:
  assumes "query_tokens rt cfg q \<noteq> []" "docs \<noteq> []" "useModel cfg"
    "length (model_numbers rt cfg) \<noteq> 5"
  shows "rerank rt cfg q qEmb docs
     = Some (Inl (Error (str ''Model weights must contain exactly 5 numbers: sem,bm25,exact,rec,bias'')))"
  using assms by (simp add: rerank_def parse_model_weights_def Let_def)

lemma parse_five:
  assumes "useModel cfg" "length (model_numbers rt cfg) = 5"
  shows "parse_model_weights rt cfg
     = Inr (Some \<lparr> wSem = model_numbers rt cfg ! 0, wBm25 = model_numbers rt cfg ! 1,
                    wExact = model_numbers rt cfg ! 2, wRec = model_numbers rt cfg ! 3,
                    bias = model_numbers rt cfg ! 4 \<rparr>)"
  using assms by (simp add: parse_model_weights_def Let_def)

lemma msg_nonempty:
  "str ''No input items provided.'' \<noteq> []" "str ''Missing or invalid 'query'.'' \<noteq> []"
  "str ''Missing or invalid 'query_embedding'.'' \<noteq> []"
  "str ''Missing or invalid 'items' array.'' \<noteq> []"
  "str ''Model weights must contain exactly 5 numbers: sem,bm25,exact,rec,bias'' \<noteq> []"
  by (simp_all add: str_def)

text \<open>
  Claim C2, amended. Every exception of the \<open>try\<close> block ends in a returned array of one
  element, the object with the two properties \<open>error = true\<close> and \<open>message\<close>, a non-empty
  string, never in an exception of the method. In particular: no input item; a \<open>query\<close>
  that is not a string; a \<open>query_embedding\<close> that is not an array; \<open>items\<close> that is not
  an array; and, for a valid request whose query has tokens and whose document list is not
  empty, a learned model whose weights do not give exactly five numbers. Each has the
  message of its \<open>throw\<close>.
\<close>

theorem failures_become_error_results:
  "(run rt cfg items = Some (Inl e) \<longrightarrow>
      (\<exists>m. m \<noteq> []
         \<and> execute rt cfg items
             = Some [JObj [(str ''error'', JBool True), (str ''message'', JStr m)]]))
   \<and> execute rt cfg []
       = Some [JObj [(str ''error'', JBool True),
                     (str ''message'', JStr (str ''No input items provided.''))]]
   \<and> (\<not> nullish item0 \<and> (\<forall>q. jsprop (first_json item0) (str ''query'') \<noteq> JStr q) \<longrightarrow>
        execute rt cfg (item0 # rest)
          = Some [JObj [(str ''error'', JBool True),
                        (str ''message'', JStr (str ''Missing or invalid 'query'.''))]])
   \<and> (\<not> nullish item0 \<and> jsprop (first_json item0) (str ''query'') = JStr q
        \<and> (\<forall>a. jsprop (first_json item0) (str ''query_embedding'') \<noteq> JArr a) \<longrightarrow>
        execute rt cfg (item0 # rest)
          = Some [JObj [(str ''error'', JBool True),
                        (str ''message'', JStr (str ''Missing or invalid 'query_embedding'.''))]])
   \<and> (\<not> nullish item0 \<and> jsprop (first_json item0) (str ''query'') = JStr q
        \<and> jsprop (first_json item0) (str ''query_embedding'') = JArr qEmb
        \<and> (\<forall>d. jsprop (first_json item0) (str ''items'') \<noteq> JArr d) \<longrightarrow>
        execute rt cfg (item0 # rest)
          = Some [JObj [(str ''error'', JBool True),
                        (str ''message'', JStr (str ''Missing or invalid 'items' array.''))]])
   \<and> (\<not> nullish item0 \<and> jsprop (first_json item0) (str ''query'') = JStr q
        \<and> jsprop (first_json item0) (str ''query_embedding'') = JArr qEmb
        \<and> jsprop (first_json item0) (str ''items'') = JArr docs
        \<and> query_tokens rt cfg q \<noteq> [] \<and> docs \<noteq> [] \<and> useModel cfg
        \<and> length (model_numbers rt cfg) \<noteq> 5 \<longrightarrow>
        execute rt cfg (item0 # rest)
          = Some [JObj [(str ''error'', JBool True),
                        (str ''message'',
                           JStr (str ''Model weights must contain exactly 5 numbers: sem,bm25,exact,rec,bias''))]])"
proof (intro conjI impI)
  assume "run rt cfg items = Some (Inl e)"
  then show "\<exists>m. m \<noteq> []
         \<and> execute rt cfg items
             = Some [JObj [(str ''error'', JBool True), (str ''message'', JStr m)]]"
    using error_result_nonempty [of rt e] by (auto simp: execute_error)
next
  show "execute rt cfg []
       = Some [JObj [(str ''error'', JBool True),
                     (str ''message'', JStr (str ''No input items provided.''))]]"
    by (simp add: execute_error [OF run_no_items] error_result_Error msg_nonempty)
next
  assume "\<not> nullish item0 \<and> (\<forall>q. jsprop (first_json item0) (str ''query'') \<noteq> JStr q)"
  then have "run rt cfg (item0 # rest)
      = Some (Inl (Error (str ''Missing or invalid 'query'.'')))"
    by (intro run_bad_query) simp_all
  then show "execute rt cfg (item0 # rest)
          = Some [JObj [(str ''error'', JBool True),
                        (str ''message'', JStr (str ''Missing or invalid 'query'.''))]]"
    by (simp add: execute_error error_result_Error msg_nonempty)
next
  assume "\<not> nullish item0 \<and> jsprop (first_json item0) (str ''query'') = JStr q
        \<and> (\<forall>a. jsprop (first_json item0) (str ''query_embedding'') \<noteq> JArr a)"
  then have "run rt cfg (item0 # rest)
      = Some (Inl (Error (str ''Missing or invalid 'query_embedding'.'')))"
    by (intro run_bad_embedding [of _ q]) simp_all
  then show "execute rt cfg (item0 # rest)
          = Some [JObj [(str ''error'', JBool True),
                        (str ''message'', JStr (str ''Missing or invalid 'query_embedding'.''))]]"
    by (simp add: execute_error error_result_Error msg_nonempty)
next
  assume "\<not> nullish item0 \<and> jsprop (first_json item0) (str ''query'') = JStr q
        \<and> jsprop (first_json item0) (str ''query_embedding'') = JArr qEmb
        \<and> (\<forall>d. jsprop (first_json item0) (str ''items'') \<noteq> JArr d)"
  then have "run rt cfg (item0 # rest)
      = Some (Inl (Error (str ''Missing or invalid 'items' array.'')))"
    by (intro run_bad_items [of _ q qEmb]) simp_all
  then show "execute rt cfg (item0 # rest)
          = Some [JObj [(str ''error'', JBool True),
                        (str ''message'', JStr (str ''Missing or invalid 'items' array.''))]]"
    by (simp add: execute_error error_result_Error msg_nonempty)
next
  assume a: "\<not> nullish item0 \<and> jsprop (first_json item0) (str ''query'') = JStr q
        \<and> jsprop (first_json item0) (str ''query_embedding'') = JArr qEmb
        \<and> jsprop (first_json item0) (str ''items'') = JArr docs
        \<and> query_tokens rt cfg q \<noteq> [] \<and> docs \<noteq> [] \<and> useModel cfg
        \<and> length (model_numbers rt cfg) \<noteq> 5"
  then have "run rt cfg (item0 # rest) = rerank rt cfg q qEmb docs"
    by (intro run_valid) simp_all
  with a have "run rt cfg (item0 # rest)
     = Some (Inl (Error (str ''Model weights must contain exactly 5 numbers: sem,bm25,exact,rec,bias'')))"
    by (simp add: rerank_bad_model)
  then show "execute rt cfg (item0 # rest)
          = Some [JObj [(str ''error'', JBool True),
                        (str ''message'',
                           JStr (str ''Model weights must contain exactly 5 numbers: sem,bm25,exact,rec,bias''))]]"
    by (simp add: execute_error error_result_Error msg_nonempty)
qed

text \<open>
  The theorem at six requests, one for each case; the first is an input item that is
  \<open>null\<close>, where reading \<open>json\<close> throws a \<open>TypeError\<close>.
\<close>

theorem failures_become_error_results_witness:
  "(\<exists>m. m \<noteq> []
      \<and> execute (ascii_rt 0) default_config [JNull]
          = Some [JObj [(str ''error'', JBool True), (str ''message'', JStr m)]])
   \<and> execute (ascii_rt 0) default_config []
       = Some [JObj [(str ''error'', JBool True),
                     (str ''message'', JStr (str ''No input items provided.''))]]
   \<and> execute (ascii_rt 0) default_config
        [JObj [(str ''json'', JObj [(str ''query'', JNum 1)])]]
      = Some [JObj [(str ''error'', JBool True),
                    (str ''message'', JStr (str ''Missing or invalid 'query'.''))]]
   \<and> execute (ascii_rt 0) default_config
        [JObj [(str ''json'', JObj [(str ''query'', JStr (str ''cat''))])]]
      = Some [JObj [(str ''error'', JBool True),
                    (str ''message'', JStr (str ''Missing or invalid 'query_embedding'.''))]]
   \<and> execute (ascii_rt 0) default_config
        [JObj [(str ''json'', JObj [(str ''query'', JStr (str ''cat'')),
                                     (str ''query_embedding'', JArr [])])]]
      = Some [JObj [(str ''error'', JBool True),
                    (str ''message'', JStr (str ''Missing or invalid 'items' array.''))]]
   \<and> execute (ascii_rt 0) (default_config\<lparr>useModel := True, modelWeights := str ''0.1,0.2''\<rparr>)
        [request ''cat'' [chunk_doc ''cat'']]
      = Some [JObj [(str ''error'', JBool True),
                    (str ''message'',
                       JStr (str ''Model weights must contain exactly 5 numbers: sem,bm25,exact,rec,bias''))]]"
proof -
  let ?rt = "ascii_rt 0"
  let ?i3 = "JObj [(str ''json'', JObj [(str ''query'', JNum 1)])]"
  let ?i4 = "JObj [(str ''json'', JObj [(str ''query'', JStr (str ''cat''))])]"
  let ?i5 = "JObj [(str ''json'', JObj [(str ''query'', JStr (str ''cat'')),
                                     (str ''query_embedding'', JArr [])])]"
  let ?cfg = "default_config\<lparr>useModel := True, modelWeights := str ''0.1,0.2''\<rparr>"
  have 1: "run ?rt default_config [JNull] = Some (Inl (TypeError (str ''json'')))"
    by (simp add: run_def)
  have 3: "\<not> nullish ?i3 \<and> (\<forall>q. jsprop (first_json ?i3) (str ''query'') \<noteq> JStr q)"
    by (simp add: first_json_def str_def)
  have 4: "\<not> nullish ?i4 \<and> jsprop (first_json ?i4) (str ''query'') = JStr (str ''cat'')
        \<and> (\<forall>a. jsprop (first_json ?i4) (str ''query_embedding'') \<noteq> JArr a)"
    by (simp add: first_json_def str_def)
  have 5: "\<not> nullish ?i5 \<and> jsprop (first_json ?i5) (str ''query'') = JStr (str ''cat'')
        \<and> jsprop (first_json ?i5) (str ''query_embedding'') = JArr []
        \<and> (\<forall>d. jsprop (first_json ?i5) (str ''items'') \<noteq> JArr d)"
    by (simp add: first_json_def str_def)
  have 6: "\<not> nullish (request ''cat'' [chunk_doc ''cat''])
        \<and> jsprop (first_json (request ''cat'' [chunk_doc ''cat''])) (str ''query'') = JStr (str ''cat'')
        \<and> jsprop (first_json (request ''cat'' [chunk_doc ''cat''])) (str ''query_embedding'') = JArr []
        \<and> jsprop (first_json (request ''cat'' [chunk_doc ''cat''])) (str ''items'') = JArr [chunk_doc ''cat'']
        \<and> query_tokens ?rt ?cfg (str ''cat'') \<noteq> [] \<and> [chunk_doc ''cat''] \<noteq> [] \<and> useModel ?cfg
        \<and> length (model_numbers ?rt ?cfg) \<noteq> 5"
    by (simp add: example_request example_query_cfg two_weights)
  from failures_become_error_results
      [where rt = ?rt and cfg = default_config and items = "[JNull]"
         and e = "TypeError (str ''json'')" and ?item0.0 = ?i3 and rest = "[]"] 1 3
  have a: "(\<exists>m. m \<noteq> []
      \<and> execute ?rt default_config [JNull]
          = Some [JObj [(str ''error'', JBool True), (str ''message'', JStr m)]])"
    and b: "execute ?rt default_config []
       = Some [JObj [(str ''error'', JBool True),
                     (str ''message'', JStr (str ''No input items provided.''))]]"
    and c: "execute ?rt default_config [?i3]
      = Some [JObj [(str ''error'', JBool True),
                    (str ''message'', JStr (str ''Missing or invalid 'query'.''))]]"
    by blast+
  from failures_become_error_results
      [where rt = ?rt and cfg = default_config and ?item0.0 = ?i4 and rest = "[]"
         and q = "str ''cat''"] 4
  have d: "execute ?rt default_config [?i4]
      = Some [JObj [(str ''error'', JBool True),
                    (str ''message'', JStr (str ''Missing or invalid 'query_embedding'.''))]]"
    by blast
  from failures_become_error_results
      [where rt = ?rt and cfg = default_config and ?item0.0 = ?i5 and rest = "[]"
         and q = "str ''cat''" and qEmb = "[]"] 5
  have e: "execute ?rt default_config [?i5]
      = Some [JObj [(str ''error'', JBool True),
                    (str ''message'', JStr (str ''Missing or invalid 'items' array.''))]]"
    by blast
  from failures_become_error_results
      [where rt = ?rt and cfg = ?cfg and ?item0.0 = "request ''cat'' [chunk_doc ''cat'']"
         and rest = "[]" and q = "str ''cat''" and qEmb = "[]" and docs = "[chunk_doc ''cat'']"] 6
  have f: "execute ?rt ?cfg [request ''cat'' [chunk_doc ''cat'']]
      = Some [JObj [(str ''error'', JBool True),
                    (str ''message'',
                       JStr (str ''Model weights must contain exactly 5 numbers: sem,bm25,exact,rec,bias''))]]"
    by blast
  from a b c d e f show ?thesis by blast
qed

text \<open>
  Claim C2, as stated: invalid model weights are among the failures that return the error
  result. It fails for a query that has no token left (\<open>the\<close> is a stopword): with the
  learned model enabled and the weights \<open>0.1,0.2\<close>, which give two numbers, the guard of
  line 135 returns the empty array before line 146 looks at the weights, so the result has
  no element that carries \<open>error = true\<close>.
\<close>

theorem invalid_model_weights_empty_result_counterexample:
  "useModel (default_config\<lparr>useModel := True, modelWeights := str ''0.1,0.2''\<rparr>)
   \<and> length (model_numbers (ascii_rt 0)
               (default_config\<lparr>useModel := True, modelWeights := str ''0.1,0.2''\<rparr>)) = 2
   \<and> execute (ascii_rt 0) (default_config\<lparr>useModel := True, modelWeights := str ''0.1,0.2''\<rparr>)
        [request ''the'' [chunk_doc ''cat'']] = Some []"
proof (intro conjI)
  show "useModel (default_config\<lparr>useModel := True, modelWeights := str ''0.1,0.2''\<rparr>)" by simp
  show "length (model_numbers (ascii_rt 0)
               (default_config\<lparr>useModel := True, modelWeights := str ''0.1,0.2''\<rparr>)) = 2"
    by (simp add: two_weights)
  have "query_tokens (ascii_rt 0)
          (default_config\<lparr>useModel := True, modelWeights := str ''0.1,0.2''\<rparr>) (str ''the'') = []"
    by (simp add: tok_eval)
  then show "execute (ascii_rt 0) (default_config\<lparr>useModel := True, modelWeights := str ''0.1,0.2''\<rparr>)
        [request ''the'' [chunk_doc ''cat'']] = Some []"
    by (simp add: execute_def run_valid [OF example_request(4) example_request(1)
          example_request(2) example_request(3)] rerank_def)
qed

text \<open>
  Claim C8, amended. With the learned model enabled, a valid request, a non-empty
  query-token sequence and a non-empty document list: if the weights string does not give
  exactly five numbers (after the pieces that are not numbers are dropped) the method
  returns the error result; if it gives exactly five, the invocation goes on to rank the
  documents with these as \<open>wSem\<close>, \<open>wBm25\<close>, \<open>wExact\<close>, \<open>wRec\<close> and \<open>bias\<close>, and
  every element it returns is the copy of a document of some batch whose \<open>rerank_score\<close> is
  the logistic function of the linear combination of that document's four signals (the
  BM25 signal normalized within the batch) with the five numbers, in this order.
\<close>

theorem model_weights_checked_after_guard:
  assumes "\<not> nullish item0"
    and "jsprop (first_json item0) (str ''query'') = JStr q"
    and "jsprop (first_json item0) (str ''query_embedding'') = JArr qEmb"
    and "jsprop (first_json item0) (str ''items'') = JArr docs"
    and "query_tokens rt cfg q \<noteq> []" and "docs \<noteq> []" and "useModel cfg"
  shows "(length (model_numbers rt cfg) \<noteq> 5 \<longrightarrow>
            execute rt cfg (item0 # rest)
              = Some [JObj [(str ''error'', JBool True),
                            (str ''message'',
                               JStr (str ''Model weights must contain exactly 5 numbers: sem,bm25,exact,rec,bias''))]])
     \<and> (length (model_numbers rt cfg) = 5 \<longrightarrow>
            run rt cfg (item0 # rest)
              = rank rt cfg (query_tokens rt cfg q) qEmb docs
                  (Some \<lparr> wSem = model_numbers rt cfg ! 0, wBm25 = model_numbers rt cfg ! 1,
                           wExact = model_numbers rt cfg ! 2, wRec = model_numbers rt cfg ! 3,
                           bias = model_numbers rt cfg ! 4 \<rparr>))
     \<and> (length (model_numbers rt cfg) = 5 \<longrightarrow>
          (\<forall>out. run rt cfg (item0 # rest) = Some (Inr out) \<longrightarrow>
             (\<exists>df. globalDF rt cfg (query_tokens rt cfg q) Map.empty docs = Inr df
                \<and> (\<forall>x \<in> set out. \<exists>j pre p.
                      first_pass rt cfg
                        \<lparr> c_qTok = query_tokens rt cfg q, c_qEmb = qEmb, c_N = length docs,
                          c_globalDF = df,
                          c_modelWeights =
                            Some \<lparr> wSem = model_numbers rt cfg ! 0, wBm25 = model_numbers rt cfg ! 1,
                                   wExact = model_numbers rt cfg ! 2, wRec = model_numbers rt cfg ! 3,
                                   bias = model_numbers rt cfg ! 4 \<rparr> \<rparr>
                        (js_slice docs j (j + eff_batchSize cfg)) = Inr pre
                      \<and> p \<in> set pre
                      \<and> x = mk_out cfg p (rerank_score x)
                      \<and> rerank_score x
                          = map_option sigmoid
                              (num2 (\<lambda>s n. s * (model_numbers rt cfg ! 0)
                                             + n * (model_numbers rt cfg ! 1)
                                             + p_exact p * (model_numbers rt cfg ! 2)
                                             + p_rec p * (model_numbers rt cfg ! 3)
                                             + model_numbers rt cfg ! 4)
                                 (p_sem p)
                                 (normBM25 (eff_normalizeMethod cfg) (map p_bm25 pre)
                                    (p_bm25 p)))))))"
  (is "?A \<and> ?B \<and> (_ \<longrightarrow> ?C)")
proof -
  have r: "run rt cfg (item0 # rest) = rerank rt cfg q qEmb docs"
    by (rule run_valid) fact+
  have a: ?A
  proof
    assume "length (model_numbers rt cfg) \<noteq> 5"
    with r assms(5-7) have "run rt cfg (item0 # rest)
       = Some (Inl (Error (str ''Model weights must contain exactly 5 numbers: sem,bm25,exact,rec,bias'')))"
      by (simp add: rerank_bad_model)
    then show "execute rt cfg (item0 # rest)
              = Some [JObj [(str ''error'', JBool True),
                            (str ''message'',
                               JStr (str ''Model weights must contain exactly 5 numbers: sem,bm25,exact,rec,bias''))]]"
      by (simp add: execute_error error_result_Error msg_nonempty)
  qed
  have b: ?B
    using r assms(5-7) by (simp add: rerank_def parse_five Let_def)
  have c: ?C if five: "length (model_numbers rt cfg) = 5"
  proof (intro allI impI)
    fix out
    assume ro: "run rt cfg (item0 # rest) = Some (Inr out)"
    let ?m = "\<lparr> wSem = model_numbers rt cfg ! 0, wBm25 = model_numbers rt cfg ! 1,
                wExact = model_numbers rt cfg ! 2, wRec = model_numbers rt cfg ! 3,
                bias = model_numbers rt cfg ! 4 \<rparr>"
    from run_success [OF ro assms(2) assms(4) assms(5) assms(6)]
    obtain qEmb' mw results where
      e: "jsprop (first_json item0) (str ''query_embedding'') = JArr qEmb'"
      and mw: "parse_model_weights rt cfg = Inr mw"
      and sc: "score_all rt cfg (query_tokens rt cfg q) qEmb' docs mw = Some (Inr results)"
      and out: "out = js_slice (js_sort compare_desc results) 0 (eff_topN cfg)"
      by blast
    from e assms(3) have qe: "qEmb' = qEmb" by simp
    from mw parse_five [OF assms(7) five] have m: "mw = Some ?m" by simp
    from sc obtain df where
      df: "globalDF rt cfg (query_tokens rt cfg q) Map.empty docs = Inr df"
      and bt: "batches (score_batch rt cfg
                  \<lparr> c_qTok = query_tokens rt cfg q, c_qEmb = qEmb, c_N = length docs,
                    c_globalDF = df, c_modelWeights = Some ?m \<rparr>)
         docs (eff_batchSize cfg) 0 [] = Some (Inr results)"
      unfolding qe m by (rule score_all_batches)
    define cx where "cx = \<lparr> c_qTok = query_tokens rt cfg q, c_qEmb = qEmb, c_N = length docs,
                    c_globalDF = df, c_modelWeights = Some ?m \<rparr>"
    define Q where "Q x \<longleftrightarrow> (\<exists>j pre p.
        first_pass rt cfg cx (js_slice docs j (j + eff_batchSize cfg)) = Inr pre
        \<and> p \<in> set pre
        \<and> x = mk_out cfg p (rerank_score x)
        \<and> rerank_score x
            = map_option sigmoid
                (num2 (\<lambda>s n. s * (model_numbers rt cfg ! 0)
                               + n * (model_numbers rt cfg ! 1)
                               + p_exact p * (model_numbers rt cfg ! 2)
                               + p_rec p * (model_numbers rt cfg ! 3)
                               + model_numbers rt cfg ! 4)
                   (p_sem p)
                   (normBM25 (eff_normalizeMethod cfg) (map p_bm25 pre) (p_bm25 p))))" for x
    have "list_all Q results"
    proof (rule batches_all [OF bt])
      fix j outs
      assume sb: "score_batch rt cfg
                  \<lparr> c_qTok = query_tokens rt cfg q, c_qEmb = qEmb, c_N = length docs,
                    c_globalDF = df, c_modelWeights = Some ?m \<rparr>
                  (js_slice docs j (j + eff_batchSize cfg)) = Inr outs"
      from score_batch_model [OF sb assms(7), of ?m] obtain pre where
        fp: "first_pass rt cfg cx (js_slice docs j (j + eff_batchSize cfg)) = Inr pre"
        and outs: "outs = map (\<lambda>p. mk_out cfg p
                 (map_option sigmoid
                    (num2 (\<lambda>s n. s * (model_numbers rt cfg ! 0)
                               + n * (model_numbers rt cfg ! 1)
                               + p_exact p * (model_numbers rt cfg ! 2)
                               + p_rec p * (model_numbers rt cfg ! 3)
                               + model_numbers rt cfg ! 4)
                       (p_sem p)
                       (normBM25 (eff_normalizeMethod cfg) (map p_bm25 pre) (p_bm25 p))))) pre"
        unfolding cx_def by auto
      show "list_all Q outs"
        unfolding list_all_iff
      proof
        fix x assume "x \<in> set outs"
        then obtain p where p: "p \<in> set pre"
          and x: "x = mk_out cfg p
                 (map_option sigmoid
                    (num2 (\<lambda>s n. s * (model_numbers rt cfg ! 0)
                               + n * (model_numbers rt cfg ! 1)
                               + p_exact p * (model_numbers rt cfg ! 2)
                               + p_rec p * (model_numbers rt cfg ! 3)
                               + model_numbers rt cfg ! 4)
                       (p_sem p)
                       (normBM25 (eff_normalizeMethod cfg) (map p_bm25 pre) (p_bm25 p))))"
          unfolding outs by auto
        from x have s: "rerank_score x = map_option sigmoid
                    (num2 (\<lambda>s n. s * (model_numbers rt cfg ! 0)
                               + n * (model_numbers rt cfg ! 1)
                               + p_exact p * (model_numbers rt cfg ! 2)
                               + p_rec p * (model_numbers rt cfg ! 3)
                               + model_numbers rt cfg ! 4)
                       (p_sem p)
                       (normBM25 (eff_normalizeMethod cfg) (map p_bm25 pre) (p_bm25 p)))"
          by (simp only: rerank_score_mk_out)
        from x s have "x = mk_out cfg p (rerank_score x)" by simp
        with fp p s show "Q x" unfolding Q_def by blast
      qed
    qed
    moreover have "set out \<subseteq> set results"
      unfolding out using set_js_slice [of "js_sort compare_desc results"]
      by (simp add: set_js_sort)
    ultimately have "\<forall>x \<in> set out. Q x" by (auto simp: list_all_iff)
    with df show "\<exists>df. globalDF rt cfg (query_tokens rt cfg q) Map.empty docs = Inr df
                \<and> (\<forall>x \<in> set out. \<exists>j pre p.
                      first_pass rt cfg
                        \<lparr> c_qTok = query_tokens rt cfg q, c_qEmb = qEmb, c_N = length docs,
                          c_globalDF = df,
                          c_modelWeights =
                            Some \<lparr> wSem = model_numbers rt cfg ! 0, wBm25 = model_numbers rt cfg ! 1,
                                   wExact = model_numbers rt cfg ! 2, wRec = model_numbers rt cfg ! 3,
                                   bias = model_numbers rt cfg ! 4 \<rparr> \<rparr>
                        (js_slice docs j (j + eff_batchSize cfg)) = Inr pre
                      \<and> p \<in> set pre
                      \<and> x = mk_out cfg p (rerank_score x)
                      \<and> rerank_score x
                          = map_option sigmoid
                              (num2 (\<lambda>s n. s * (model_numbers rt cfg ! 0)
                                             + n * (model_numbers rt cfg ! 1)
                                             + p_exact p * (model_numbers rt cfg ! 2)
                                             + p_rec p * (model_numbers rt cfg ! 3)
                                             + model_numbers rt cfg ! 4)
                                 (p_sem p)
                                 (normBM25 (eff_normalizeMethod cfg) (map p_bm25 pre)
                                    (p_bm25 p))))"
      unfolding Q_def cx_def by (intro exI [of _ df]) simp
  qed
  from a b c show ?thesis by blast
qed

text \<open>
  The request with the query \<open>cat\<close> and the one document \<open>cat\<close>, scored by the model
  with the weights \<open>1,2,3,4,5\<close>: the semantic signal is 0, the exact overlap 1, the recency
  that of a document without timestamp.
\<close>

lemma model_example:
  "\<exists>out. run (ascii_rt 0) (default_config\<lparr>useModel := True, modelWeights := str ''1,2,3,4,5''\<rparr>)
            [request ''cat'' [chunk_doc ''cat'']] = Some (Inr [out])
     \<and> rerank_score out
         = Some (sigmoid (0 * 1 + sigmoid (bm25_term 1 1 1 1 1) * 2 + 1 * 3
                            + exp (- (999 / 60)) * 4 + 5))"
  by (simp add: run_eval batches.simps out_eval num_eval Let_def del: not_None_eq)

text \<open>
  The theorem at the weights \<open>0.1,0.2\<close> and at the weights \<open>1,2,3,4,5\<close>.
\<close>

theorem model_weights_checked_after_guard_witness:
  "execute (ascii_rt 0) (default_config\<lparr>useModel := True, modelWeights := str ''0.1,0.2''\<rparr>)
        [request ''cat'' [chunk_doc ''cat'']]
      = Some [JObj [(str ''error'', JBool True),
                    (str ''message'',
                       JStr (str ''Model weights must contain exactly 5 numbers: sem,bm25,exact,rec,bias''))]]
   \<and> (\<exists>out df j pre p.
         run (ascii_rt 0) (default_config\<lparr>useModel := True, modelWeights := str ''1,2,3,4,5''\<rparr>)
            [request ''cat'' [chunk_doc ''cat'']] = Some (Inr [out])
         \<and> model_numbers (ascii_rt 0)
             (default_config\<lparr>useModel := True, modelWeights := str ''1,2,3,4,5''\<rparr>)
             = [1, 2, 3, 4, 5]
         \<and> globalDF (ascii_rt 0)
             (default_config\<lparr>useModel := True, modelWeights := str ''1,2,3,4,5''\<rparr>)
             [str ''cat''] Map.empty [chunk_doc ''cat''] = Inr df
         \<and> first_pass (ascii_rt 0)
             (default_config\<lparr>useModel := True, modelWeights := str ''1,2,3,4,5''\<rparr>)
             \<lparr> c_qTok = [str ''cat''], c_qEmb = [], c_N = 1, c_globalDF = df,
               c_modelWeights = Some \<lparr> wSem = 1, wBm25 = 2, wExact = 3, wRec = 4, bias = 5 \<rparr> \<rparr>
             (js_slice [chunk_doc ''cat''] j (j + 200)) = Inr pre
         \<and> p \<in> set pre
         \<and> out = mk_out (default_config\<lparr>useModel := True, modelWeights := str ''1,2,3,4,5''\<rparr>)
                   p (rerank_score out)
         \<and> rerank_score out
             = map_option sigmoid
                 (num2 (\<lambda>s n. s * 1 + n * 2 + p_exact p * 3 + p_rec p * 4 + 5) (p_sem p)
                    (normBM25 (str ''sigmoid'') (map p_bm25 pre) (p_bm25 p)))
         \<and> rerank_score out
             = Some (sigmoid (0 * 1 + sigmoid (bm25_term 1 1 1 1 1) * 2 + 1 * 3
                                + exp (- (999 / 60)) * 4 + 5)))"
proof -
  let ?rt = "ascii_rt 0"
  let ?c2 = "default_config\<lparr>useModel := True, modelWeights := str ''0.1,0.2''\<rparr>"
  let ?c5 = "default_config\<lparr>useModel := True, modelWeights := str ''1,2,3,4,5''\<rparr>"
  let ?it = "request ''cat'' [chunk_doc ''cat'']"
  have q2: "query_tokens ?rt ?c2 (str ''cat'') \<noteq> []" and q5: "query_tokens ?rt ?c5 (str ''cat'') \<noteq> []"
    by (simp_all add: example_query_cfg)
  have d: "[chunk_doc ''cat''] \<noteq> []" by simp
  have u2: "useModel ?c2" and u5: "useModel ?c5" by simp_all
  have bs: "eff_batchSize ?c5 = 200" and nm: "eff_normalizeMethod ?c5 = str ''sigmoid''"
    by (simp_all add: eff_batchSize_def eff_normalizeMethod_def number_or_def default_config_def)
  from model_weights_checked_after_guard
    [OF example_request(4) example_request(1) example_request(2) example_request(3) q2 d u2]
  have a: "execute ?rt ?c2 [?it]
      = Some [JObj [(str ''error'', JBool True),
                    (str ''message'',
                       JStr (str ''Model weights must contain exactly 5 numbers: sem,bm25,exact,rec,bias''))]]"
    by (simp add: two_weights)
  from model_example obtain out where
    ro: "run ?rt ?c5 [?it] = Some (Inr [out])"
    and v: "rerank_score out
         = Some (sigmoid (0 * 1 + sigmoid (bm25_term 1 1 1 1 1) * 2 + 1 * 3
                            + exp (- (999 / 60)) * 4 + 5))"
    by blast
  from model_weights_checked_after_guard
    [OF example_request(4) example_request(1) example_request(2) example_request(3) q5 d u5,
     where rest = "[]"] ro
  have "\<exists>df. globalDF ?rt ?c5 [str ''cat''] Map.empty [chunk_doc ''cat''] = Inr df
         \<and> (\<exists>j pre p. first_pass ?rt ?c5
             \<lparr> c_qTok = [str ''cat''], c_qEmb = [], c_N = 1, c_globalDF = df,
               c_modelWeights = Some \<lparr> wSem = 1, wBm25 = 2, wExact = 3, wRec = 4, bias = 5 \<rparr> \<rparr>
             (js_slice [chunk_doc ''cat''] j (j + 200)) = Inr pre
         \<and> p \<in> set pre
         \<and> out = mk_out ?c5 p (rerank_score out)
         \<and> rerank_score out
             = map_option sigmoid
                 (num2 (\<lambda>s n. s * 1 + n * 2 + p_exact p * 3 + p_rec p * 4 + 5) (p_sem p)
                    (normBM25 (str ''sigmoid'') (map p_bm25 pre) (p_bm25 p))))"
    by (simp add: five_weights bs nm example_query_cfg del: not_None_eq)
  with a ro v five_weights show ?thesis by blast
qed

text \<open>
  Claim C8, as stated: with the learned model enabled, weights that do not give five
  numbers make the invocation fail. It fails for an empty document list: the guard of line
  135 returns the empty result before line 146 looks at the weights.
\<close>

theorem model_weights_unchecked_counterexample:
  "useModel (default_config\<lparr>useModel := True, modelWeights := str ''0.1,0.2''\<rparr>)
   \<and> model_numbers (ascii_rt 0) (default_config\<lparr>useModel := True, modelWeights := str ''0.1,0.2''\<rparr>)
       = [1 / 10, 1 / 5]
   \<and> execute (ascii_rt 0) (default_config\<lparr>useModel := True, modelWeights := str ''0.1,0.2''\<rparr>)
        [request ''cat'' []] = Some []"
proof (intro conjI)
  show "useModel (default_config\<lparr>useModel := True, modelWeights := str ''0.1,0.2''\<rparr>)" by simp
  show "model_numbers (ascii_rt 0) (default_config\<lparr>useModel := True, modelWeights := str ''0.1,0.2''\<rparr>)
       = [1 / 10, 1 / 5]"
    by (rule two_weights)
  show "execute (ascii_rt 0) (default_config\<lparr>useModel := True, modelWeights := str ''0.1,0.2''\<rparr>)
        [request ''cat'' []] = Some []"
    by (simp add: execute_def run_valid [OF example_request(4) example_request(1)
          example_request(2) example_request(3)] rerank_def)
qed

section \<open>Top N on an example\<close>

text \<open>
  The query \<open>cat\<close> and the documents \<open>dog\<close>, \<open>cat\<close> and \<open>cat dog\<close>, with
  \<open>topN = 2\<close>: three documents are scored, every score is a number.
\<close>

lemma scored_example:
  "\<exists>results. score_all (ascii_rt 0) (default_config\<lparr>topN := 2\<rparr>) [str ''cat''] []
        [chunk_doc ''dog'', chunk_doc ''cat'', chunk_doc ''cat dog''] None = Some (Inr results)
      \<and> list_all (\<lambda>x. rerank_score x \<noteq> None) results"
  by (simp add: run_eval batches.simps out_eval Let_def del: not_None_eq)

text \<open>
  The theorem at this request: two of the three scored documents are returned, in
  descending order of \<open>rerank_score\<close>.
\<close>

theorem top_n_sorted_witness:
  "\<exists>out. run (ascii_rt 0) (default_config\<lparr>topN := 2\<rparr>)
            [request ''cat'' [chunk_doc ''dog'', chunk_doc ''cat'', chunk_doc ''cat dog'']]
          = Some (Inr out)
     \<and> execute (ascii_rt 0) (default_config\<lparr>topN := 2\<rparr>)
            [request ''cat'' [chunk_doc ''dog'', chunk_doc ''cat'', chunk_doc ''cat dog'']]
          = Some out
     \<and> length out = 2
     \<and> list_all (\<lambda>x. rerank_score x \<noteq> None) out
     \<and> sorted_wrt (\<lambda>a b. the (rerank_score b) \<le> the (rerank_score a)) out"
proof -
  let ?rt = "ascii_rt 0"
  let ?cfg = "default_config\<lparr>topN := 2\<rparr>"
  let ?docs = "[chunk_doc ''dog'', chunk_doc ''cat'', chunk_doc ''cat dog'']"
  from scored_example obtain results where
    sc: "score_all ?rt ?cfg [str ''cat''] [] ?docs None = Some (Inr results)"
    and num: "list_all (\<lambda>x. rerank_score x \<noteq> None) results"
    by blast
  have qt: "query_tokens ?rt ?cfg (str ''cat'') = [str ''cat'']"
    by (simp add: tok_eval)
  have pm: "parse_model_weights ?rt ?cfg = Inr None"
    by (simp add: parse_model_weights_def default_config_def)
  have r: "run ?rt ?cfg [request ''cat'' ?docs]
             = Some (Inr (js_slice (js_sort compare_desc results) 0 (eff_topN ?cfg)))"
    by (simp add: run_valid [OF example_request(4) example_request(1) example_request(2)
          example_request(3)] rerank_def qt pm rank_def sc)
  have q: "query_tokens ?rt ?cfg (str ''cat'') \<noteq> []" by (simp add: qt)
  have d: "?docs \<noteq> []" by simp
  have t: "eff_topN ?cfg = real 2"
    by (simp add: eff_topN_def number_or_def)
  from top_n_sorted [OF r example_request(1) example_request(3) q d, of 2] t
  have e: "execute ?rt ?cfg [request ''cat'' ?docs]
             = Some (js_slice (js_sort compare_desc results) 0 (eff_topN ?cfg))"
    and l: "length (js_slice (js_sort compare_desc results) 0 (eff_topN ?cfg)) = 2"
    and s: "\<exists>qEmb mw results'.
          jsprop (first_json (request ''cat'' ?docs)) (str ''query_embedding'') = JArr qEmb
          \<and> parse_model_weights ?rt ?cfg = Inr mw
          \<and> score_all ?rt ?cfg (query_tokens ?rt ?cfg (str ''cat'')) qEmb ?docs mw
              = Some (Inr results')
          \<and> (list_all (\<lambda>x. rerank_score x \<noteq> None) results' \<longrightarrow>
               list_all (\<lambda>x. rerank_score x \<noteq> None)
                 (js_slice (js_sort compare_desc results) 0 (eff_topN ?cfg))
               \<and> sorted_wrt (\<lambda>a b. the (rerank_score b) \<le> the (rerank_score a))
                   (js_slice (js_sort compare_desc results) 0 (eff_topN ?cfg)))"
    by (simp_all del: not_None_eq) blast+
  from s sc num have "list_all (\<lambda>x. rerank_score x \<noteq> None)
                 (js_slice (js_sort compare_desc results) 0 (eff_topN ?cfg))
               \<and> sorted_wrt (\<lambda>a b. the (rerank_score b) \<le> the (rerank_score a))
                   (js_slice (js_sort compare_desc results) 0 (eff_topN ?cfg))"
    by (auto simp: example_request(2) pm qt simp del: not_None_eq)
  with r e l show ?thesis by blast
qed

text \<open>
  A score need not be a number. Components of the embeddings whose squares overflow make
  the cosine \<open>Infinity / Infinity\<close>, which is \<open>NaN\<close>; components whose squares underflow
  make the denominator zero and the cosine \<open>0\<close>.
\<close>

lemma cos_overflow_nan: "cos rt [JNum (2 ^ 600)] (JArr [JNum (2 ^ 600)]) = Inr None"
  by (simp add: cos_def opt_prop_def dbl_range_def)

lemma cos_underflow_zero:
  "cos rt [JNum (1 / 2 ^ 600)] (JArr [JNum (1 / 2 ^ 600)]) = Inr (Some 0)"
  by (simp add: cos_def opt_prop_def dbl_range_def)

lemma cos_same_direction: "cos rt [JNum 3, JNum 4] (JArr [JNum 6, JNum 8]) = Inr (Some 1)"
  by (simp add: cos_def opt_prop_def dbl_range_def real_sqrt_mult [symmetric])

text \<open>
  A query token that names a property of \<open>Object.prototype\<close> makes every score \<open>NaN\<close>:
  \<open>tfMap["constructor"]\<close> and \<open>globalDF["constructor"]\<close> read the inherited function.
\<close>

lemma constructor_query_scores_nan:
  "map_option (map_sum id (map rerank_score))
     (run (ascii_rt 0) default_config [request ''constructor'' [chunk_doc ''cat'']])
   = Some (Inr [None])"
  by (simp add: run_eval batches.simps out_eval)

text \<open>
  Claim C1, as stated: the returned sequence has length min(topN, number of documents). It
  fails for \<open>topN = 1.5\<close> and two documents: \<open>slice(0, 1.5)\<close> keeps one result, and the
  minimum of 1.5 and 2 is 1.5.
\<close>

theorem top_n_length_counterexample:
  "map_option (map_sum id length)
     (run (ascii_rt 0) (default_config\<lparr>topN := 3 / 2\<rparr>)
        [request ''cat'' [chunk_doc ''dog'', chunk_doc ''cat'']]) = Some (Inr 1)
   \<and> query_tokens (ascii_rt 0) (default_config\<lparr>topN := 3 / 2\<rparr>) (str ''cat'') = [str ''cat'']
   \<and> real 1 \<noteq> min (eff_topN (default_config\<lparr>topN := 3 / 2\<rparr>))
                   (real (length [chunk_doc ''dog'', chunk_doc ''cat'']))"
proof (intro conjI)
  show "map_option (map_sum id length)
     (run (ascii_rt 0) (default_config\<lparr>topN := 3 / 2\<rparr>)
        [request ''cat'' [chunk_doc ''dog'', chunk_doc ''cat'']]) = Some (Inr 1)"
    by (simp add: run_eval batches.simps out_eval)
  show "query_tokens (ascii_rt 0) (default_config\<lparr>topN := 3 / 2\<rparr>) (str ''cat'') = [str ''cat'']"
    by (simp add: tok_eval)
  show "real 1 \<noteq> min (eff_topN (default_config\<lparr>topN := 3 / 2\<rparr>))
                   (real (length [chunk_doc ''dog'', chunk_doc ''cat'']))"
    by (simp add: eff_topN_def number_or_def)
qed

section \<open>The clock\<close>



















section \<open>Document frequencies and BM25\<close>

lemma count_at_bump_same:
  assumes "junk_only_inherited m" "t \<notin> set Object_prototype_names"
  shows "count_at (bump m t) t = Suc (count_at m t)"
proof -
  from assms have "m t \<noteq> Some Junk" by (auto simp: junk_only_inherited_def)
  with assms(2) show ?thesis
    by (cases "m t") (auto simp: count_at_def bump_def read_cell_def split: cell.splits)
qed

lemma count_at_bump_other: "t' \<noteq> t \<Longrightarrow> count_at (bump m t') t = count_at m t"
  by (simp add: count_at_def bump_def)

lemma count_at_foldl:
  assumes "t \<notin> set Object_prototype_names"
  shows "junk_only_inherited m \<Longrightarrow>
    count_at (foldl (\<lambda>m u. if u \<in> S then bump m u else m) m ts) t
      = count_at m t + (if t \<in> S then count_list ts t else 0)"
proof (induction ts arbitrary: m)
  case Nil
  then show ?case by simp
next
  case (Cons u ts)
  show ?case
  proof (cases "u \<in> S")
    case False
    with Cons show ?thesis by auto
  next
    case True
    have j: "junk_only_inherited (bump m u)" by (rule junk_bump [OF Cons.prems])
    show ?thesis
    proof (cases "u = t")
      case same: True
      with True Cons.IH [OF j] count_at_bump_same [OF Cons.prems assms] show ?thesis by simp
    next
      case False
      with True Cons.IH [OF j] count_at_bump_other [of u t m] show ?thesis by simp
    qed
  qed
qed

text \<open>
  What lines 152 to 155 compute for a token that is not an inherited property name: the
  number of documents that contain it, times the number of its occurrences in the query.
  It is the document frequency when the query does not repeat the token.
\<close>

lemma globalDF_value:
  assumes "t \<notin> set Object_prototype_names"
  shows "globalDF rt cfg qTok df0 docs = Inr df \<Longrightarrow> junk_only_inherited df0 \<Longrightarrow>
    count_at df t = count_at df0 t
      + count_list qTok t
        * length (filter (\<lambda>it. \<exists>dTok. doc_tokens rt cfg it = Inr dTok \<and> t \<in> set dTok) docs)"
proof (induction docs arbitrary: df0)
  case Nil
  then show ?case by simp
next
  case (Cons it docs)
  from Cons.prems(1) obtain dTok where d: "doc_tokens rt cfg it = Inr dTok"
    and g: "globalDF rt cfg qTok
              (foldl (\<lambda>m t. if t \<in> set dTok then bump m t else m) df0 qTok) docs = Inr df"
    by (auto split: sum.splits)
  have j: "junk_only_inherited (foldl (\<lambda>m t. if t \<in> set dTok then bump m t else m) df0 qTok)"
    by (rule junk_foldl_cond [OF Cons.prems(2)])
  from Cons.IH [OF g j] count_at_foldl [OF assms Cons.prems(2), of "set dTok" qTok] d
  show ?case by (simp add: algebra_simps)
qed

lemma count_list_distinct: "distinct xs \<Longrightarrow> x \<in> set xs \<Longrightarrow> count_list xs x = 1"
  by (induction xs) (auto simp: count_list_0_iff)

lemma globalDF_distinct:
  assumes "globalDF rt cfg qTok Map.empty docs = Inr df" "distinct qTok" "t \<in> set qTok"
    "t \<notin> set Object_prototype_names"
  shows "count_at df t
     = length (filter (\<lambda>it. \<exists>dTok. doc_tokens rt cfg it = Inr dTok \<and> t \<in> set dTok) docs)"
proof -
  from assms(2,3) have "count_list qTok t = 1" by (simp add: count_list_distinct)
  with globalDF_value [OF assms(4) assms(1) junk_empty] show ?thesis
    by (simp add: count_at_def)
qed

text \<open>
  The contribution of a term does not fall when its term frequency grows, as long as the
  document frequency is at most the number of documents plus one.
\<close>

lemma bm25_term_mono:
  assumes "0 < df" "df \<le> real N + 1" "0 < len" "0 < avgLen" "0 \<le> tf" "tf \<le> tf'"
  shows "bm25_term N df tf len avgLen \<le> bm25_term N df tf' len avgLen"
proof -
  define K where "K = bm25_k1 * (1 - bm25_b + bm25_b * (len / avgLen))"
  have K: "0 < K"
    unfolding K_def bm25_k1_def bm25_b_def using assms(3,4)
    by (intro mult_pos_pos add_pos_pos) simp_all
  have idf: "0 \<le> ln ((real N + 1) / df)"
    using assms(1,2) by (simp add: ln_ge_zero_iff)
  have c: "0 \<le> bm25_k1 + 1" by (simp add: bm25_k1_def)
  have "tf * (tf' + K) \<le> tf' * (tf + K)"
    using assms(5,6) K by (simp add: algebra_simps)
  then have "tf / (tf + K) \<le> tf' / (tf' + K)"
    using assms(5,6) K by (simp add: frac_le_eq divide_le_0_iff mult.commute)
  then have "tf * (bm25_k1 + 1) / (tf + K) \<le> tf' * (bm25_k1 + 1) / (tf' + K)"
    using c by (simp add: mult_right_mono times_divide_eq_left [symmetric] del: times_divide_eq_left)
  then show ?thesis
    unfolding bm25_term_def K_def [symmetric] using idf by (intro mult_left_mono) simp_all
qed

text \<open>
  Claim C3 at the query \<open>cat cat\<close> and the documents \<open>cat\<close>, \<open>cat dog\<close> and \<open>bird\<close>:
  two of the three documents contain \<open>cat\<close>, and lines 152 to 155 leave 4 in
  \<open>globalDF\<close>, because the inner loop runs over the query tokens with their repetitions.
\<close>

theorem globalDF_repeated_query_token:
  "query_tokens (ascii_rt 0) default_config (str ''cat cat'') = [str ''cat'', str ''cat'']
   \<and> map (doc_tokens (ascii_rt 0) default_config)
        [chunk_doc ''cat'', chunk_doc ''cat dog'', chunk_doc ''bird'']
      = [Inr [str ''cat''], Inr [str ''cat'', str ''dog''], Inr [str ''bird'']]
   \<and> globalDF (ascii_rt 0) default_config [str ''cat'', str ''cat''] Map.empty
        [chunk_doc ''cat'', chunk_doc ''cat dog'', chunk_doc ''bird'']
      = Inr [str ''cat'' \<mapsto> Count 4]"
proof (intro conjI)
  show "query_tokens (ascii_rt 0) default_config (str ''cat cat'') = [str ''cat'', str ''cat'']"
    by (simp add: tok_eval)
  show "map (doc_tokens (ascii_rt 0) default_config)
        [chunk_doc ''cat'', chunk_doc ''cat dog'', chunk_doc ''bird'']
      = [Inr [str ''cat''], Inr [str ''cat'', str ''dog''], Inr [str ''bird'']]"
    by (simp add: tok_eval)
  show "globalDF (ascii_rt 0) default_config [str ''cat'', str ''cat''] Map.empty
        [chunk_doc ''cat'', chunk_doc ''cat dog'', chunk_doc ''bird'']
      = Inr [str ''cat'' \<mapsto> Count 4]"
  proof -
    have e: "(4::nat) = Suc (Suc (Suc (Suc 0)))" by simp
    show ?thesis unfolding e by (simp add: df_eval)
  qed
qed

lemma ln_half_negative: "ln (1 / 2 :: real) < 0"
  by (rule ln_less_zero) simp_all

text \<open>
  Claim C6 at the query \<open>cat cat cat\<close> and the documents \<open>cat dog\<close> and \<open>cat cat\<close> (one
  batch, both of length 2, average length 2): \<open>globalDF\<close> holds 6 for \<open>cat\<close>, more than
  the 2 documents plus one, the inverse document frequency \<open>ln (3 / 6)\<close> is negative, and the
  contribution of the term at term frequency 2 is smaller than at term frequency 1; so is
  the raw BM25 of the second document.
\<close>

theorem bm25_term_falls_with_term_frequency:
  "query_tokens (ascii_rt 0) default_config (str ''cat cat cat'')
     = [str ''cat'', str ''cat'', str ''cat'']
   \<and> map (doc_tokens (ascii_rt 0) default_config) [chunk_doc ''cat dog'', chunk_doc ''cat cat'']
      = [Inr [str ''cat'', str ''dog''], Inr [str ''cat'', str ''cat'']]
   \<and> globalDF (ascii_rt 0) default_config [str ''cat'', str ''cat'', str ''cat''] Map.empty
        [chunk_doc ''cat dog'', chunk_doc ''cat cat'']
      = Inr [str ''cat'' \<mapsto> Count 6]
   \<and> bm25_term 2 6 2 2 2 < bm25_term 2 6 1 2 2
   \<and> bm25_of 2 [str ''cat'' \<mapsto> Count 6] [str ''cat'', str ''cat'', str ''cat'']
        [str ''cat'', str ''dog''] 2 = Some (3 * bm25_term 2 6 1 2 2)
   \<and> bm25_of 2 [str ''cat'' \<mapsto> Count 6] [str ''cat'', str ''cat'', str ''cat'']
        [str ''cat'', str ''cat''] 2 = Some (3 * bm25_term 2 6 2 2 2)"
proof (intro conjI)
  show "query_tokens (ascii_rt 0) default_config (str ''cat cat cat'')
     = [str ''cat'', str ''cat'', str ''cat'']"
    by (simp add: tok_eval)
  show "map (doc_tokens (ascii_rt 0) default_config) [chunk_doc ''cat dog'', chunk_doc ''cat cat'']
      = [Inr [str ''cat'', str ''dog''], Inr [str ''cat'', str ''cat'']]"
    by (simp add: tok_eval)
  show "globalDF (ascii_rt 0) default_config [str ''cat'', str ''cat'', str ''cat''] Map.empty
        [chunk_doc ''cat dog'', chunk_doc ''cat cat'']
      = Inr [str ''cat'' \<mapsto> Count 6]"
  proof -
    have e: "(6::nat) = Suc (Suc (Suc (Suc (Suc (Suc 0)))))" by simp
    show ?thesis unfolding e by (simp add: df_eval)
  qed
  show "bm25_term 2 6 2 2 2 < bm25_term 2 6 1 2 2"
    using ln_half_negative by (simp add: bm25_term_def bm25_k1_def bm25_b_def)
  show "bm25_of 2 [str ''cat'' \<mapsto> Count 6] [str ''cat'', str ''cat'', str ''cat'']
        [str ''cat'', str ''dog''] 2 = Some (3 * bm25_term 2 6 1 2 2)"
    by (simp add: bm25_of_def bm25_step_def bump_def read_cell_def Object_prototype_names_def
        num2_def str_def)
  show "bm25_of 2 [str ''cat'' \<mapsto> Count 6] [str ''cat'', str ''cat'', str ''cat'']
        [str ''cat'', str ''cat''] 2 = Some (3 * bm25_term 2 6 2 2 2)"
    by (simp add: bm25_of_def bm25_step_def bump_def read_cell_def Object_prototype_names_def
        num2_def str_def)
qed

end
